theory Spec2Isabelle
  imports Complex_Main "HOL-Library.Log_Nat"
begin

section \<open>Python numbers\<close>

text \<open>
  The similarity scores, the running sum and the stored percentages of
  \<^verbatim>\<open>antiplag/tasks.py\<close> are Python numbers: the integer \<^verbatim>\<open>0\<close> the sum
  starts from, and IEEE-754 binary64 floats afterwards.  A number is modelled by
  the rational it denotes.  Every float operation of Python returns the exact
  result rounded to the nearest binary64 value, ties to the even mantissa; that
  rounding is \<open>float64\<close> below.  Infinities and NaN are outside the model (scores
  lie in \<open>[0, 1]\<close> and the sums and products of the task stay far inside the
  binary64 range).
\<close>

definition pow2 :: "int \<Rightarrow> rat" where
  "pow2 e = (if 0 \<le> e then 2 ^ nat e else 1 / 2 ^ nat (- e))"

text \<open>The binary exponent \<open>\<lfloor>log\<^sub>2 \<bar>q\<bar>\<rfloor>\<close> of a non-zero rational.\<close>

definition float_exponent :: "rat \<Rightarrow> int" where
  "float_exponent q =
     (case quotient_of \<bar>q\<bar> of (a, b) \<Rightarrow>
        let e0 = bitlen a - bitlen b
        in if pow2 e0 \<le> \<bar>q\<bar> then e0 else e0 - 1)"

definition round_half_even :: "rat \<Rightarrow> int" where
  "round_half_even x =
     (let f = \<lfloor>x\<rfloor>; r = x - of_int f
      in if r < 1 / 2 then f else if 1 / 2 < r then f + 1
         else if even f then f else f + 1)"

text \<open>
  Rounding to binary64: 53 bits of mantissa, the exponent not below that of the
  smallest normal number (so that subnormals share its spacing).
\<close>

definition float64 :: "rat \<Rightarrow> rat" where
  "float64 q =
     (if q = 0 then 0
      else let e = max (float_exponent q) (- 1022); u = pow2 (e - 52)
           in of_int (round_half_even (q / u)) * u)"

text \<open>\<^verbatim>\<open>a + b\<close>, \<^verbatim>\<open>a * b\<close> and \<^verbatim>\<open>a / b\<close> on Python numbers of which one is a float.
  The divisors of the task are \<^verbatim>\<open>compared_count\<close> under the guard
  \<^verbatim>\<open>compared_count > 0\<close> and \<^verbatim>\<open>round_factor = 10 ** round_decimal_places\<close>, so
  \<^verbatim>\<open>ZeroDivisionError\<close> has no branch here.\<close>

definition float_add :: "rat \<Rightarrow> rat \<Rightarrow> rat" where
  "float_add a b = float64 (a + b)"

definition float_mul :: "rat \<Rightarrow> rat \<Rightarrow> rat" where
  "float_mul a b = float64 (a * b)"

definition float_truediv :: "rat \<Rightarrow> rat \<Rightarrow> rat" where
  "float_truediv a b = float64 (a / b)"

text \<open>The expression \<^verbatim>\<open>ceil(x * round_factor) / round_factor\<close>, which
  \<^verbatim>\<open>compare_documents\<close> writes three times.  In the product Python converts
  the integer \<^verbatim>\<open>round_factor\<close> to a float (rounding it when it is not one) and
  multiplies the two floats; \<^verbatim>\<open>math.ceil\<close> gives an exact integer; and the true
  division of two integers rounds their exact quotient once.  The integer
  \<^verbatim>\<open>10 ** round_decimal_places\<close> is itself a float up to \<^verbatim>\<open>10 ** 22\<close>; from
  \<^verbatim>\<open>10 ** 309\<close> on the conversion raises \<^verbatim>\<open>OverflowError\<close>, which is outside
  the model as every value beyond the binary64 range is.\<close>

definition ceil_round :: "int \<Rightarrow> rat \<Rightarrow> rat" where
  "ceil_round round_factor x =
     float_truediv (of_int \<lceil>float_mul x (float64 (of_int round_factor))\<rceil>)
       (of_int round_factor)"

section \<open>Data model\<close>

datatype SubmissionStatus = PENDING | PROCESSING | PROCESSED

datatype DocumentType = FILE | TEXT

datatype MatchType = CORPUS | UPLOADED

text \<open>The exceptions the task can meet: the two of \<^verbatim>\<open>Submission.objects.get\<close>,
  the \<^verbatim>\<open>ValueError\<close> of \<^verbatim>\<open>list.remove\<close>, and whatever a collaborator raises.\<close>

datatype exn = DoesNotExist | MultipleObjectsReturned | ValueError | Raised string

text \<open>Modelled from the spec: the fields of the three models as
  \<^verbatim>\<open>antiplag/tasks.py\<close> reads and writes them (\<^verbatim>\<open>submission.email\<close>,
  \<^verbatim>\<open>doc.total_percentage\<close>, \<^verbatim>\<open>doc.results.create(match_type, match_id, match_name,
  percentage, ranges)\<close>).  The \<^verbatim>\<open>antiplag/models.py\<close> at hand declares an
  earlier schema without the contact address, the aggregate percentage and the
  per-match Result fields.\<close>

record Submission =
  sub_id :: int
  status :: SubmissionStatus
  email :: "string option"

record Document =
  doc_id :: int
  submission_id :: "int option"
  doc_type :: DocumentType
  doc_file :: string
  name :: string
  doc_text_raw :: string
  doc_text :: string
  language :: string
  total_percentage :: "rat option"

text \<open>A match is identified by the corpus item's \<^verbatim>\<open>elastic_id\<close> or by the
  sibling document's \<^verbatim>\<open>id\<close>.\<close>

datatype match_ref = ElasticId string | DocumentId int

record Result =
  document :: int
  match_type :: MatchType
  match_id :: match_ref
  match_name :: string
  percentage :: rat
  ranges :: "(nat \<times> nat) list"

text \<open>Modelled from the spec: an entry of the list \<^verbatim>\<open>Elastic.find_similar\<close>
  returns, with the three keys \<^verbatim>\<open>compare_documents\<close> reads.\<close>

record Candidate =
  elastic_id :: string
  cand_name :: string
  text_preprocessed :: string

text \<open>Modelled from the spec: the \<^verbatim>\<open>"first_to_second"\<close> entry of what
  \<^verbatim>\<open>text_comparison\<close> returns.\<close>

record Comparison =
  similarity :: rat
  intervals :: "(nat \<times> nat) list"

text \<open>The arguments of \<^verbatim>\<open>send_mail\<close>; the message is the template and the
  value substituted for its \<^verbatim>\<open>%s\<close>.\<close>

record Mail =
  subject :: string
  message_template :: string
  message_arg :: int
  from_email :: string
  recipient_list :: "string list"

section \<open>The store and the collaborators\<close>

text \<open>
  The database holds the rows of the three tables; every write is also appended
  to a journal, which keeps the order of the effects of a run.  Writes to the
  store succeed (a failing store is not modelled).
\<close>

datatype event =
    SubmissionSaved Submission
  | DocumentSaved Document
  | ResultCreated Result
  | MailDispatched Mail

record world =
  submission_table :: "Submission list"
  document_table :: "Document list"
  result_table :: "Result list"
  journal :: "event list"

text \<open>
  The modules \<^verbatim>\<open>nlp.elastic\<close>, \<^verbatim>\<open>nlp.text_comparison\<close>, \<^verbatim>\<open>nlp.text_preprocessing\<close>,
  \<^verbatim>\<open>langdetect\<close>, \<^verbatim>\<open>django.core.mail\<close> and the constants \<^verbatim>\<open>EMAIL_SENDER\<close> and
  \<^verbatim>\<open>SIMILARITY_THRESHOLD\<close> are parameters: each call returns a value or raises.
  \<open>preprocess_text env t l\<close> stands for component \<^verbatim>\<open>[1]\<close> of
  \<^verbatim>\<open>preprocess_text(t, language=l, words_to_numbers=True, remove_numbers=False,
  tokenize_words=False, lemmatize=False, remove_stopwords=True)\<close>.
\<close>

record env =
  extract_text_from_file :: "string \<Rightarrow> exn + string"
  detect :: "string \<Rightarrow> exn + string"
  preprocess_text :: "string \<Rightarrow> string \<Rightarrow> exn + string"
  find_similar :: "string \<Rightarrow> nat \<Rightarrow> exn + Candidate list"
  text_comparison :: "string \<Rightarrow> string \<Rightarrow> exn + Comparison"
  send_mail :: "Mail \<Rightarrow> exn + unit"
  EMAIL_SENDER :: string
  SIMILARITY_THRESHOLD :: rat

text \<open>\<^verbatim>\<open>Submission.objects.get(id=submission_id)\<close>.\<close>

definition get_submission :: "world \<Rightarrow> int \<Rightarrow> exn + Submission" where
  "get_submission w i =
     (case filter (\<lambda>s. sub_id s = i) (submission_table w) of
        [] \<Rightarrow> Inl DoesNotExist
      | [s] \<Rightarrow> Inr s
      | _ \<Rightarrow> Inl MultipleObjectsReturned)"

text \<open>\<^verbatim>\<open>Model.save()\<close>: the row with the primary key is replaced, and inserted
  when there is none.\<close>

definition upsert :: "('a \<Rightarrow> int) \<Rightarrow> 'a \<Rightarrow> 'a list \<Rightarrow> 'a list" where
  "upsert key x xs =
     (if key x \<in> set (map key xs)
      then map (\<lambda>y. if key y = key x then x else y) xs
      else xs @ [x])"

definition save_submission :: "Submission \<Rightarrow> world \<Rightarrow> world" where
  "save_submission s w =
     w\<lparr>submission_table := upsert sub_id s (submission_table w),
       journal := journal w @ [SubmissionSaved s]\<rparr>"

definition save_document :: "Document \<Rightarrow> world \<Rightarrow> world" where
  "save_document d w =
     w\<lparr>document_table := upsert doc_id d (document_table w),
       journal := journal w @ [DocumentSaved d]\<rparr>"

text \<open>\<^verbatim>\<open>doc.results.create(...)\<close>: Results are only ever appended.\<close>

definition create_result :: "Result \<Rightarrow> world \<Rightarrow> world" where
  "create_result r w =
     w\<lparr>result_table := result_table w @ [r], journal := journal w @ [ResultCreated r]\<rparr>"

text \<open>\<^verbatim>\<open>submission.documents.all()\<close>.\<close>

definition submission_documents :: "world \<Rightarrow> Submission \<Rightarrow> Document list" where
  "submission_documents w s =
     filter (\<lambda>d. submission_id d = Some (sub_id s)) (document_table w)"

section \<open>Ingestion\<close>

definition process_file :: "env \<Rightarrow> string \<Rightarrow> exn + string" where
  "process_file env f = extract_text_from_file env f"

definition detect_language :: "env \<Rightarrow> string \<Rightarrow> exn + string" where
  "detect_language env raw = detect env raw"

definition process_raw_text :: "env \<Rightarrow> string \<Rightarrow> string \<Rightarrow> exn + string" where
  "process_raw_text env t lang = preprocess_text env t lang"

text \<open>
  The \<^verbatim>\<open>try\<close> block of the ingestion loop up to \<^verbatim>\<open>document.save()\<close>.  An
  exception leaves the assignments made before it in place, so the failure
  carries the document as the handler finds it.
\<close>

definition ingest_try :: "env \<Rightarrow> Document \<Rightarrow> (exn \<times> Document) + Document" where
  "ingest_try env d =
     (case (if doc_type d = FILE
            then (case process_file env (doc_file d) of
                    Inl e \<Rightarrow> Inl (e, d)
                  | Inr raw \<Rightarrow> Inr (d\<lparr>doc_text_raw := raw\<rparr>))
            else Inr d) of
        Inl x \<Rightarrow> Inl x
      | Inr d1 \<Rightarrow>
          (case detect_language env (doc_text_raw d1) of
             Inl e \<Rightarrow> Inl (e, d1)
           | Inr lang \<Rightarrow>
               (let d2 = d1\<lparr>language := lang\<rparr>
                in case process_raw_text env (doc_text_raw d2) (language d2) of
                     Inl e \<Rightarrow> Inl (e, d2)
                   | Inr t \<Rightarrow> Inr (d2\<lparr>doc_text := t\<rparr>))))"

text \<open>The \<^verbatim>\<open>except Exception\<close> handler (the message printed to stderr is
  not modelled).\<close>

definition ingest_except :: "Document \<Rightarrow> Document" where
  "ingest_except d =
     (let d1 = (if doc_type d = FILE then d\<lparr>doc_text_raw := ''''\<rparr> else d)
      in d1\<lparr>doc_text := doc_text_raw d1\<rparr>)"

text \<open>One iteration of \<^verbatim>\<open>for document in documents\<close>: the document as it is in
  memory afterwards, and the store.\<close>

definition ingest_document :: "env \<Rightarrow> Document \<Rightarrow> world \<Rightarrow> Document \<times> world" where
  "ingest_document env d w =
     (case ingest_try env d of
        Inr d' \<Rightarrow> (d', save_document d' w)
      | Inl (e, d1) \<Rightarrow> (ingest_except d1, save_document (ingest_except d1) w))"

fun ingest_documents :: "env \<Rightarrow> Document list \<Rightarrow> world \<Rightarrow> Document list \<times> world" where
  "ingest_documents env [] w = ([], w)"
| "ingest_documents env (d # ds) w =
     (case ingest_document env d w of
        (d', w1) \<Rightarrow>
          (case ingest_documents env ds w1 of
             (ds', w2) \<Rightarrow> (d' # ds', w2)))"

section \<open>Comparison\<close>

text \<open>\<^verbatim>\<open>user_documents.remove(doc)\<close>: the first element equal to \<open>doc\<close> goes, and
  model instances are equal when their primary keys are.\<close>

fun remove_doc :: "Document \<Rightarrow> Document list \<Rightarrow> exn + Document list" where
  "remove_doc doc [] = Inl ValueError"
| "remove_doc doc (x # xs) =
     (if doc_id x = doc_id doc then Inr xs
      else (case remove_doc doc xs of
              Inl e \<Rightarrow> Inl e
            | Inr ys \<Rightarrow> Inr (x # ys)))"

definition corpus_result :: "int \<Rightarrow> Document \<Rightarrow> Candidate \<Rightarrow> Comparison \<Rightarrow> Result" where
  "corpus_result round_factor doc similar_doc sim =
     \<lparr>document = doc_id doc,
      match_type = CORPUS,
      match_id = ElasticId (elastic_id similar_doc),
      match_name = cand_name similar_doc,
      percentage = ceil_round round_factor (similarity sim),
      ranges = intervals sim\<rparr>"

definition uploaded_result :: "int \<Rightarrow> Document \<Rightarrow> Document \<Rightarrow> Comparison \<Rightarrow> Result" where
  "uploaded_result round_factor doc user_doc sim =
     \<lparr>document = doc_id doc,
      match_type = UPLOADED,
      match_id = DocumentId (doc_id user_doc),
      match_name = name user_doc,
      percentage = ceil_round round_factor (similarity sim),
      ranges = intervals sim\<rparr>"

text \<open>
  The loop \<^verbatim>\<open>for similar_doc in similar_documents\<close>, on the loop state
  (\<^verbatim>\<open>result_similarity\<close>, \<^verbatim>\<open>compared_count\<close>, store).  The \<^verbatim>\<open>try\<close> holds the
  engine call and the addition, and \<^verbatim>\<open>continue\<close> skips the rest of the iteration.
\<close>

fun compare_corpus ::
  "env \<Rightarrow> rat \<Rightarrow> int \<Rightarrow> Document \<Rightarrow> Candidate list \<Rightarrow> rat \<times> nat \<times> world \<Rightarrow> rat \<times> nat \<times> world"
where
  "compare_corpus env threshold round_factor doc [] st = st"
| "compare_corpus env threshold round_factor doc (similar_doc # rest)
       (result_similarity, compared_count, w) =
     (case text_comparison env (doc_text doc) (text_preprocessed similar_doc) of
        Inl e \<Rightarrow>
          compare_corpus env threshold round_factor doc rest
            (result_similarity, compared_count, w)
      | Inr sim \<Rightarrow>
          (if threshold < similarity sim
           then compare_corpus env threshold round_factor doc rest
                  (float_add result_similarity (similarity sim), compared_count + 1,
                   create_result (corpus_result round_factor doc similar_doc sim) w)
           else compare_corpus env threshold round_factor doc rest
                  (float_add result_similarity (similarity sim), compared_count, w)))"

text \<open>The loop \<^verbatim>\<open>for user_doc in user_documents\<close>.\<close>

fun compare_uploaded ::
  "env \<Rightarrow> rat \<Rightarrow> int \<Rightarrow> Document \<Rightarrow> Document list \<Rightarrow> rat \<times> nat \<times> world \<Rightarrow> rat \<times> nat \<times> world"
where
  "compare_uploaded env threshold round_factor doc [] st = st"
| "compare_uploaded env threshold round_factor doc (user_doc # rest)
       (result_similarity, compared_count, w) =
     (case text_comparison env (doc_text doc) (doc_text user_doc) of
        Inl e \<Rightarrow>
          compare_uploaded env threshold round_factor doc rest
            (result_similarity, compared_count, w)
      | Inr sim \<Rightarrow>
          (if threshold < similarity sim
           then compare_uploaded env threshold round_factor doc rest
                  (float_add result_similarity (similarity sim), compared_count + 1,
                   create_result (uploaded_result round_factor doc user_doc sim) w)
           else compare_uploaded env threshold round_factor doc rest
                  (float_add result_similarity (similarity sim), compared_count, w)))"

text \<open>\<^verbatim>\<open>if compared_count > 0: result_similarity /= compared_count\<close>.\<close>

definition average :: "rat \<Rightarrow> nat \<Rightarrow> rat" where
  "average result_similarity compared_count =
     (if 0 < compared_count
      then float_truediv result_similarity (of_nat compared_count)
      else result_similarity)"

text \<open>
  The body of \<^verbatim>\<open>for doc in documents\<close>.  An exception of
  \<^verbatim>\<open>Elastic.find_similar\<close> or of \<^verbatim>\<open>list.remove\<close> is not caught: it leaves the
  function, with the store as it is by then.
\<close>

definition compare_document ::
  "env \<Rightarrow> rat \<Rightarrow> nat \<Rightarrow> int \<Rightarrow> Document list \<Rightarrow> Document \<Rightarrow> world \<Rightarrow> exn option \<times> world"
where
  "compare_document env threshold similar_count round_factor documents doc w =
     (case find_similar env (doc_text doc) similar_count of
        Inl e \<Rightarrow> (Some e, w)
      | Inr similar_documents \<Rightarrow>
          (case remove_doc doc documents of
             Inl e \<Rightarrow> (Some e, w)
           | Inr user_documents \<Rightarrow>
               (case compare_uploaded env threshold round_factor doc user_documents
                       (compare_corpus env threshold round_factor doc similar_documents
                          (0, 0, w)) of
                  (result_similarity, compared_count, w') \<Rightarrow>
                    (None,
                     save_document
                       (doc\<lparr>total_percentage :=
                          Some (ceil_round round_factor
                                  (average result_similarity compared_count))\<rparr>)
                       w'))))"

fun compare_loop ::
  "env \<Rightarrow> rat \<Rightarrow> nat \<Rightarrow> int \<Rightarrow> Document list \<Rightarrow> Document list \<Rightarrow> world \<Rightarrow> exn option \<times> world"
where
  "compare_loop env threshold similar_count round_factor documents [] w = (None, w)"
| "compare_loop env threshold similar_count round_factor documents (doc # rest) w =
     (case compare_document env threshold similar_count round_factor documents doc w of
        (Some e, w') \<Rightarrow> (Some e, w')
      | (None, w') \<Rightarrow>
          compare_loop env threshold similar_count round_factor documents rest w')"

text \<open>
  \<^verbatim>\<open>compare_documents(documents, threshold, similar_count, round_decimal_places)\<close>.
  The siblings are read for their \<^verbatim>\<open>text\<close>, \<^verbatim>\<open>id\<close> and \<^verbatim>\<open>name\<close> only, which the
  loop does not assign, so every iteration sees the list it was given.
\<close>

definition compare_documents ::
  "env \<Rightarrow> Document list \<Rightarrow> rat \<Rightarrow> nat \<Rightarrow> nat \<Rightarrow> world \<Rightarrow> exn option \<times> world"
where
  "compare_documents env documents threshold similar_count round_decimal_places w =
     compare_loop env threshold similar_count (10 ^ round_decimal_places)
       documents documents w"

section \<open>The task\<close>

definition completion_mail :: "env \<Rightarrow> Submission \<Rightarrow> string \<Rightarrow> Mail" where
  "completion_mail env s address =
     \<lparr>subject = ''Antiplag - Your check has finished!'',
      message_template =
        ''Check the results of your check at https://antiplag.sk/submission/%s/'',
      message_arg = sub_id s,
      from_email = EMAIL_SENDER env,
      recipient_list = [address]\<rparr>"

text \<open>\<^verbatim>\<open>send_mail(..., fail_silently=False)\<close>: the call is an effect of its own,
  and its exception leaves the task.\<close>

definition dispatch_mail :: "env \<Rightarrow> Mail \<Rightarrow> world \<Rightarrow> exn option \<times> world" where
  "dispatch_mail env m w =
     (case send_mail env m of
        Inl e \<Rightarrow> (Some e, w\<lparr>journal := journal w @ [MailDispatched m]\<rparr>)
      | Inr u \<Rightarrow> (None, w\<lparr>journal := journal w @ [MailDispatched m]\<rparr>))"

text \<open>
  \<^verbatim>\<open>process_documents(submission_id)\<close>: the exception that leaves the task, if
  any, and the store afterwards.  The bare \<^verbatim>\<open>except\<close> around the lookup returns.
\<close>

definition process_documents :: "env \<Rightarrow> int \<Rightarrow> world \<Rightarrow> exn option \<times> world" where
  "process_documents env i w =
     (case get_submission w i of
        Inl e \<Rightarrow> (None, w)
      | Inr submission \<Rightarrow>
          (let w1 = save_submission (submission\<lparr>status := PROCESSING\<rparr>) w
           in case ingest_documents env
                     (submission_documents w1 (submission\<lparr>status := PROCESSING\<rparr>)) w1 of
                (docs, w2) \<Rightarrow>
                  (case compare_documents env docs (SIMILARITY_THRESHOLD env) 10 2 w2 of
                     (Some e, w3) \<Rightarrow> (Some e, w3)
                   | (None, w3) \<Rightarrow>
                       (let w4 = save_submission (submission\<lparr>status := PROCESSED\<rparr>) w3
                        in case email submission of
                             None \<Rightarrow> (None, w4)
                           | Some address \<Rightarrow>
                               dispatch_mail env
                                 (completion_mail env submission address) w4))))"

section \<open>The run, stated over the whole batch\<close>

text \<open>
  The definitions of this section say in closed form what the loops above
  compute: which pairs are scored, which of them match, what is summed and
  counted, and which effects a document's step leaves in the store.  The
  lemmas further down prove that the loops compute exactly this.
\<close>

text \<open>The sibling pool of a document: the batch without the documents that carry
  its primary key.\<close>

definition siblings :: "Document \<Rightarrow> Document list \<Rightarrow> Document list" where
  "siblings doc docs = filter (\<lambda>x. doc_id x \<noteq> doc_id doc) docs"

text \<open>The corpus candidates for which the engine returned, in order, each with
  what it returned.\<close>

definition scored_corpus :: "env \<Rightarrow> Document \<Rightarrow> Candidate list \<Rightarrow> (Candidate \<times> Comparison) list" where
  "scored_corpus env doc cs =
     List.map_filter
       (\<lambda>c. case text_comparison env (doc_text doc) (text_preprocessed c) of
               Inl e \<Rightarrow> None
             | Inr sim \<Rightarrow> Some (c, sim)) cs"

text \<open>The same for a list of uploaded documents.\<close>

definition scored_uploaded :: "env \<Rightarrow> Document \<Rightarrow> Document list \<Rightarrow> (Document \<times> Comparison) list" where
  "scored_uploaded env doc us =
     List.map_filter
       (\<lambda>u. case text_comparison env (doc_text doc) (doc_text u) of
               Inl e \<Rightarrow> None
             | Inr sim \<Rightarrow> Some (u, sim)) us"

text \<open>A scored pair is a match when its score is strictly above the threshold.\<close>

definition exceeds :: "rat \<Rightarrow> 'a \<times> Comparison \<Rightarrow> bool" where
  "exceeds threshold p = (threshold < similarity (snd p))"

text \<open>The Results of the matches, in order.\<close>

definition corpus_matches :: "env \<Rightarrow> rat \<Rightarrow> int \<Rightarrow> Document \<Rightarrow> Candidate list \<Rightarrow> Result list" where
  "corpus_matches env threshold round_factor doc cs =
     map (\<lambda>(c, sim). corpus_result round_factor doc c sim)
       (filter (exceeds threshold) (scored_corpus env doc cs))"

definition uploaded_matches :: "env \<Rightarrow> rat \<Rightarrow> int \<Rightarrow> Document \<Rightarrow> Document list \<Rightarrow> Result list" where
  "uploaded_matches env threshold round_factor doc us =
     map (\<lambda>(u, sim). uploaded_result round_factor doc u sim)
       (filter (exceeds threshold) (scored_uploaded env doc us))"

text \<open>Creating a list of Results one after the other.\<close>

definition create_results :: "Result list \<Rightarrow> world \<Rightarrow> world" where
  "create_results rs w =
     w\<lparr>result_table := result_table w @ rs, journal := journal w @ map ResultCreated rs\<rparr>"

text \<open>What \<^verbatim>\<open>Elastic.find_similar\<close> returns for a document, and whether it returns.\<close>

definition candidates :: "env \<Rightarrow> nat \<Rightarrow> Document \<Rightarrow> Candidate list" where
  "candidates env similar_count doc =
     (case find_similar env (doc_text doc) similar_count of Inl e \<Rightarrow> [] | Inr cs \<Rightarrow> cs)"

definition searchable :: "env \<Rightarrow> nat \<Rightarrow> Document \<Rightarrow> bool" where
  "searchable env similar_count doc =
     (case find_similar env (doc_text doc) similar_count of Inl e \<Rightarrow> False | Inr cs \<Rightarrow> True)"

text \<open>The scores of all successfully scored pairs of a document, corpus
  candidates first, then siblings, whether above the threshold or not.\<close>

definition pair_scores :: "env \<Rightarrow> nat \<Rightarrow> Document list \<Rightarrow> Document \<Rightarrow> rat list" where
  "pair_scores env similar_count docs doc =
     map (\<lambda>p. similarity (snd p)) (scored_corpus env doc (candidates env similar_count doc)) @
     map (\<lambda>p. similarity (snd p)) (scored_uploaded env doc (siblings doc docs))"

text \<open>The sum, accumulated from \<^verbatim>\<open>0\<close> in that order with float addition, the
  number of scores above the threshold, and the aggregate the two give.\<close>

definition similarity_sum :: "rat list \<Rightarrow> rat" where
  "similarity_sum scores = foldl float_add 0 scores"

definition match_count :: "rat \<Rightarrow> rat list \<Rightarrow> nat" where
  "match_count threshold scores = length (filter (\<lambda>s. threshold < s) scores)"

definition aggregate :: "rat \<Rightarrow> rat list \<Rightarrow> rat" where
  "aggregate threshold scores =
     (if 0 < match_count threshold scores
      then float_truediv (similarity_sum scores) (of_nat (match_count threshold scores))
      else similarity_sum scores)"

text \<open>The Results of a document's step, the document as the step saves it, and
  the effect of the step on the store.\<close>

definition expected_results :: "env \<Rightarrow> rat \<Rightarrow> nat \<Rightarrow> int \<Rightarrow> Document list \<Rightarrow> Document \<Rightarrow> Result list" where
  "expected_results env threshold similar_count round_factor docs doc =
     corpus_matches env threshold round_factor doc (candidates env similar_count doc) @
     uploaded_matches env threshold round_factor doc (siblings doc docs)"

definition scored_document :: "env \<Rightarrow> rat \<Rightarrow> nat \<Rightarrow> int \<Rightarrow> Document list \<Rightarrow> Document \<Rightarrow> Document" where
  "scored_document env threshold similar_count round_factor docs doc =
     doc\<lparr>total_percentage :=
           Some (ceil_round round_factor
                   (aggregate threshold (pair_scores env similar_count docs doc)))\<rparr>"

definition document_effects :: "env \<Rightarrow> rat \<Rightarrow> nat \<Rightarrow> int \<Rightarrow> Document list \<Rightarrow> Document \<Rightarrow> world \<Rightarrow> world" where
  "document_effects env threshold similar_count round_factor docs doc w =
     save_document (scored_document env threshold similar_count round_factor docs doc)
       (create_results (expected_results env threshold similar_count round_factor docs doc) w)"

text \<open>The row of a document in the store, and the events of one step.\<close>

definition document_row :: "world \<Rightarrow> int \<Rightarrow> Document option" where
  "document_row w i = find (\<lambda>d. doc_id d = i) (document_table w)"

definition document_events ::
  "env \<Rightarrow> rat \<Rightarrow> nat \<Rightarrow> int \<Rightarrow> Document list \<Rightarrow> Document \<Rightarrow> event list" where
  "document_events env threshold similar_count round_factor docs doc =
     map ResultCreated (expected_results env threshold similar_count round_factor docs doc) @
     [DocumentSaved (scored_document env threshold similar_count round_factor docs doc)]"

text \<open>A document as the ingestion loop leaves it, and the saving of a list of
  documents.\<close>

definition ingested :: "env \<Rightarrow> Document \<Rightarrow> Document" where
  "ingested env d =
     (case ingest_try env d of Inr d' \<Rightarrow> d' | Inl (e, d1) \<Rightarrow> ingest_except d1)"

definition save_documents :: "Document list \<Rightarrow> world \<Rightarrow> world" where
  "save_documents ds w = foldl (\<lambda>w d. save_document d w) w ds"



text \<open>The aggregate percentage stored for a document, and the documents that a
  stretch of the journal saves under a given primary key.\<close>

definition stored_total :: "world \<Rightarrow> int \<Rightarrow> rat option" where
  "stored_total w i =
     (case document_row w i of None \<Rightarrow> None | Some d \<Rightarrow> total_percentage d)"

fun saves_of :: "int \<Rightarrow> event list \<Rightarrow> Document list" where
  "saves_of i [] = []"
| "saves_of i (DocumentSaved d # es) =
     (if doc_id d = i then d # saves_of i es else saves_of i es)"
| "saves_of i (e # es) = saves_of i es"

text \<open>The documents of a submission after ingestion, the events of the
  per-document work of a run (the saves of ingestion, then the steps of the
  comparison up to the first failing corpus search), and the notification.\<close>

definition run_documents :: "env \<Rightarrow> world \<Rightarrow> Submission \<Rightarrow> Document list" where
  "run_documents env w s = map (ingested env) (submission_documents w s)"

definition work_events :: "env \<Rightarrow> Document list \<Rightarrow> event list" where
  "work_events env docs =
     map DocumentSaved docs @
     concat (map (document_events env (SIMILARITY_THRESHOLD env) 10 (10 ^ 2) docs)
               (takeWhile (searchable env 10) docs))"

definition mail_events :: "env \<Rightarrow> Submission \<Rightarrow> event list" where
  "mail_events env s =
     (case email s of None \<Rightarrow> [] | Some address \<Rightarrow> [MailDispatched (completion_mail env s address)])"

text \<open>Events of work on documents; the statuses a stretch of the journal saves;
  the order \<^verbatim>\<open>PENDING\<close>, \<^verbatim>\<open>PROCESSING\<close>, \<^verbatim>\<open>PROCESSED\<close>.\<close>

fun is_document_work :: "event \<Rightarrow> bool" where
  "is_document_work (DocumentSaved d) = True"
| "is_document_work (ResultCreated r) = True"
| "is_document_work e = False"

fun saved_statuses :: "event list \<Rightarrow> SubmissionStatus list" where
  "saved_statuses [] = []"
| "saved_statuses (SubmissionSaved s # es) = status s # saved_statuses es"
| "saved_statuses (e # es) = saved_statuses es"

fun status_rank :: "SubmissionStatus \<Rightarrow> nat" where
  "status_rank PENDING = 0"
| "status_rank PROCESSING = 1"
| "status_rank PROCESSED = 2"

text \<open>The store after the comparison step of a run.\<close>

definition compared_world :: "env \<Rightarrow> Submission \<Rightarrow> world \<Rightarrow> world" where
  "compared_world env s w =
     (let docs = run_documents env w s
      in foldl (\<lambda>v d. document_effects env (SIMILARITY_THRESHOLD env) 10 (10 ^ 2) docs d v)
           (save_documents docs (save_submission (s\<lparr>status := PROCESSING\<rparr>) w))
           (takeWhile (searchable env 10) docs))"

section \<open>Concrete runs\<close>

text \<open>
  A batch of two pasted texts \<open>d\<close> and \<open>s\<close> of submission 1.  The corpus search
  finds one candidate for \<open>d\<close> and none for \<open>s\<close>; the engine scores \<open>d\<close> against
  the candidate at \<^verbatim>\<open>0.8\<close> and the two texts against each other at \<^verbatim>\<open>0.3\<close>, and
  fails on every other pair; the threshold is \<^verbatim>\<open>0.5\<close>.  A Python literal such
  as \<^verbatim>\<open>0.8\<close> is the binary64 value nearest to it: \<open>float64 (4 / 5)\<close>.
\<close>

definition doc_d :: Document where
  "doc_d = \<lparr>doc_id = 1, submission_id = Some 1, doc_type = TEXT, doc_file = '''',
            name = ''d'', doc_text_raw = ''a'', doc_text = ''a'', language = ''en'',
            total_percentage = None\<rparr>"

definition doc_s :: Document where
  "doc_s = \<lparr>doc_id = 2, submission_id = Some 1, doc_type = TEXT, doc_file = '''',
            name = ''s'', doc_text_raw = ''b'', doc_text = ''b'', language = ''en'',
            total_percentage = None\<rparr>"

definition cand_c :: Candidate where
  "cand_c = \<lparr>elastic_id = ''e1'', cand_name = ''c'', text_preprocessed = ''c''\<rparr>"

definition scenario_env :: env where
  "scenario_env =
     \<lparr>extract_text_from_file = (\<lambda>p. Inl (Raised ''unreadable'')),
      detect = (\<lambda>t. Inr ''en''),
      preprocess_text = (\<lambda>t l. Inr t),
      find_similar = (\<lambda>t n. if t = ''a'' then Inr [cand_c] else Inr []),
      text_comparison =
        (\<lambda>x y. if x = ''a'' \<and> y = ''c''
               then Inr \<lparr>similarity = float64 (4 / 5), intervals = [(0, 1)]\<rparr>
               else if x = ''a'' \<and> y = ''b'' \<or> x = ''b'' \<and> y = ''a''
               then Inr \<lparr>similarity = float64 (3 / 10), intervals = []\<rparr>
               else Inl (Raised ''incomparable'')),
      send_mail = (\<lambda>m. Inr ()),
      EMAIL_SENDER = ''noreply@antiplag.sk'',
      SIMILARITY_THRESHOLD = 1 / 2\<rparr>"

definition scenario_world :: world where
  "scenario_world =
     \<lparr>submission_table = [\<lparr>sub_id = 1, status = PENDING, email = Some ''u@x.sk''\<rparr>],
      document_table = [doc_d, doc_s],
      result_table = [],
      journal = []\<rparr>"

text \<open>An uploaded file of another submission, whose extraction fails.\<close>

definition doc_f :: Document where
  "doc_f = \<lparr>doc_id = 3, submission_id = Some 2, doc_type = FILE, doc_file = ''f.pdf'',
            name = ''f'', doc_text_raw = ''stale'', doc_text = ''stale'', language = '''',
            total_percentage = None\<rparr>"

text \<open>A second engine: no corpus candidates, and the two texts score \<^verbatim>\<open>0.75\<close>
  and \<^verbatim>\<open>0.875\<close> against each other, both above the threshold.\<close>

definition mutual_env :: env where
  "mutual_env =
     scenario_env
       \<lparr>find_similar := (\<lambda>t n. Inr []),
        text_comparison :=
          (\<lambda>x y. if x = ''a'' \<and> y = ''b''
                 then Inr \<lparr>similarity = 3 / 4, intervals = [(0, 1)]\<rparr>
                 else if x = ''b'' \<and> y = ''a''
                 then Inr \<lparr>similarity = 7 / 8, intervals = [(2, 3)]\<rparr>
                 else Inl (Raised ''incomparable''))\<rparr>"

text \<open>A mail backend that is down.\<close>

definition mail_failing_env :: env where
  "mail_failing_env = scenario_env\<lparr>send_mail := (\<lambda>m. Inl (Raised ''smtp down''))\<rparr>"

text \<open>The submission of the batch, and a store whose only submission has
  already been processed.\<close>

definition scenario_submission :: Submission where
  "scenario_submission = \<lparr>sub_id = 1, status = PENDING, email = Some ''u@x.sk''\<rparr>"

definition reprocessed_world :: world where
  "reprocessed_world =
     \<lparr>submission_table = [\<lparr>sub_id = 1, status = PROCESSED, email = None\<rparr>],
      document_table = [],
      result_table = [],
      journal = []\<rparr>"

section \<open>The loops compute the batch-level description\<close>

lemma create_results_Nil [simp]: "create_results [] w = w"
  by (simp add: create_results_def)

lemma create_results_Cons:
  "create_results rs (create_result r w) = create_results (r # rs) w"
  by (simp add: create_results_def create_result_def)

lemma create_results_append:
  "create_results rs2 (create_results rs1 w) = create_results (rs1 @ rs2) w"
  by (simp add: create_results_def)

lemma compare_corpus_eq:
  "compare_corpus env threshold round_factor doc cs (rs, cc, w) =
     (foldl float_add rs (map (\<lambda>p. similarity (snd p)) (scored_corpus env doc cs)),
      cc + length (filter (exceeds threshold) (scored_corpus env doc cs)),
      create_results (corpus_matches env threshold round_factor doc cs) w)"
proof (induction cs arbitrary: rs cc w)
  case Nil
  show ?case by (simp add: scored_corpus_def corpus_matches_def map_filter_simps)
next
  case (Cons c cs)
  show ?case
  proof (cases "text_comparison env (doc_text doc) (text_preprocessed c)")
    case (Inl e)
    then show ?thesis
      using Cons.IH [of rs cc w]
      by (simp add: scored_corpus_def corpus_matches_def map_filter_simps)
  next
    case (Inr sim)
    then show ?thesis
      using Cons.IH
      by (simp add: scored_corpus_def corpus_matches_def map_filter_simps exceeds_def
          create_results_Cons)
  qed
qed

lemma compare_uploaded_eq:
  "compare_uploaded env threshold round_factor doc us (rs, cc, w) =
     (foldl float_add rs (map (\<lambda>p. similarity (snd p)) (scored_uploaded env doc us)),
      cc + length (filter (exceeds threshold) (scored_uploaded env doc us)),
      create_results (uploaded_matches env threshold round_factor doc us) w)"
proof (induction us arbitrary: rs cc w)
  case Nil
  show ?case by (simp add: scored_uploaded_def uploaded_matches_def map_filter_simps)
next
  case (Cons u us)
  show ?case
  proof (cases "text_comparison env (doc_text doc) (doc_text u)")
    case (Inl e)
    then show ?thesis
      using Cons.IH [of rs cc w]
      by (simp add: scored_uploaded_def uploaded_matches_def map_filter_simps)
  next
    case (Inr sim)
    then show ?thesis
      using Cons.IH
      by (simp add: scored_uploaded_def uploaded_matches_def map_filter_simps exceeds_def
          create_results_Cons)
  qed
qed

lemma remove_doc_siblings:
  "distinct (map doc_id docs) \<Longrightarrow> doc_id doc \<in> set (map doc_id docs) \<Longrightarrow>
   remove_doc doc docs = Inr (siblings doc docs)"
proof (induction docs)
  case Nil
  then show ?case by simp
next
  case (Cons x xs)
  show ?case
  proof (cases "doc_id x = doc_id doc")
    case True
    with Cons.prems have "\<forall>y\<in>set xs. doc_id y \<noteq> doc_id doc" by (auto simp: image_iff)
    then have "filter (\<lambda>y. doc_id y \<noteq> doc_id doc) xs = xs" by simp
    with True show ?thesis by (simp add: siblings_def)
  next
    case False
    with Cons show ?thesis by (auto simp: siblings_def)
  qed
qed

lemma match_count_scored:
  "match_count threshold (map (\<lambda>p. similarity (snd p)) ps) = length (filter (exceeds threshold) ps)"
  by (induction ps) (simp_all add: match_count_def exceeds_def)

lemma match_count_append:
  "match_count threshold (xs @ ys) = match_count threshold xs + match_count threshold ys"
  by (simp add: match_count_def)

lemma compare_document_eq:
  assumes "distinct (map doc_id docs)" and "doc_id doc \<in> set (map doc_id docs)"
    and "searchable env similar_count doc"
  shows "compare_document env threshold similar_count round_factor docs doc w =
           (None, document_effects env threshold similar_count round_factor docs doc w)"
proof -
  from assms(3) obtain cs where cs: "find_similar env (doc_text doc) similar_count = Inr cs"
    by (auto simp: searchable_def split: sum.splits)
  then have cand: "candidates env similar_count doc = cs"
    by (simp add: candidates_def)
  have rem: "remove_doc doc docs = Inr (siblings doc docs)"
    using assms(1,2) by (rule remove_doc_siblings)
  show ?thesis
    by (simp add: compare_document_def cs rem compare_corpus_eq compare_uploaded_eq
        document_effects_def scored_document_def expected_results_def cand pair_scores_def
        aggregate_def average_def similarity_sum_def match_count_append match_count_scored
        create_results_append)
qed

lemma compare_loop_eq:
  assumes "distinct (map doc_id docs)"
    and "\<forall>d\<in>set ds. doc_id d \<in> set (map doc_id docs) \<and> searchable env similar_count d"
  shows "compare_loop env threshold similar_count round_factor docs ds w =
           (None, foldl (\<lambda>w d. document_effects env threshold similar_count round_factor docs d w) w ds)"
  using assms(2)
proof (induction ds arbitrary: w)
  case Nil
  show ?case by simp
next
  case (Cons d ds)
  then show ?case
    by (simp add: compare_document_eq [OF assms(1)])
qed

subsection \<open>Effects of a step on the store\<close>

lemma find_snoc:
  "find P (xs @ [x]) = (case find P xs of None \<Rightarrow> (if P x then Some x else None) | Some y \<Rightarrow> Some y)"
  by (induction xs) simp_all

lemma find_upsert:
  "find (\<lambda>d. key d = i) (upsert key x t) =
     (if key x = i then Some x else find (\<lambda>d. key d = i) t)"
proof (cases "key x \<in> set (map key t)")
  case True
  have "find (\<lambda>d. key d = i) (map (\<lambda>y. if key y = key x then x else y) t) =
          (if key x = i \<and> key x \<in> set (map key t) then Some x else find (\<lambda>d. key d = i) t)"
    by (induction t) auto
  with True show ?thesis by (simp add: upsert_def)
next
  case False
  then have "key x = i \<Longrightarrow> find (\<lambda>d. key d = i) t = None"
    by (auto simp: find_None_iff image_iff)
  with False show ?thesis
    by (auto simp: upsert_def find_snoc split: option.splits)
qed

lemma document_effects_journal:
  "journal (document_effects env threshold similar_count round_factor docs doc w) =
     journal w @ document_events env threshold similar_count round_factor docs doc"
  by (simp add: document_effects_def save_document_def create_results_def document_events_def)

lemma document_effects_results:
  "result_table (document_effects env threshold similar_count round_factor docs doc w) =
     result_table w @ expected_results env threshold similar_count round_factor docs doc"
  by (simp add: document_effects_def save_document_def create_results_def)

lemma document_effects_submissions:
  "submission_table (document_effects env threshold similar_count round_factor docs doc w) =
     submission_table w"
  by (simp add: document_effects_def save_document_def create_results_def)

lemma document_effects_row:
  "document_row (document_effects env threshold similar_count round_factor docs doc w) i =
     (if doc_id doc = i
      then Some (scored_document env threshold similar_count round_factor docs doc)
      else document_row w i)"
  by (simp add: document_effects_def save_document_def create_results_def document_row_def
      find_upsert scored_document_def)

lemma foldl_effects_journal:
  "journal (foldl (\<lambda>w d. document_effects env threshold similar_count round_factor docs d w) w ds) =
     journal w @ concat (map (document_events env threshold similar_count round_factor docs) ds)"
  by (induction ds arbitrary: w) (simp_all add: document_effects_journal)

lemma foldl_effects_results:
  "result_table (foldl (\<lambda>w d. document_effects env threshold similar_count round_factor docs d w) w ds) =
     result_table w @ concat (map (expected_results env threshold similar_count round_factor docs) ds)"
  by (induction ds arbitrary: w) (simp_all add: document_effects_results)

lemma foldl_effects_submissions:
  "submission_table (foldl (\<lambda>w d. document_effects env threshold similar_count round_factor docs d w) w ds) =
     submission_table w"
  by (induction ds arbitrary: w) (simp_all add: document_effects_submissions)

lemma foldl_effects_row:
  assumes "distinct (map doc_id ds)" and "d \<in> set ds"
  shows "document_row
           (foldl (\<lambda>w d. document_effects env threshold similar_count round_factor docs d w) w ds)
           (doc_id d) =
         Some (scored_document env threshold similar_count round_factor docs d)"
  using assms
proof (induction ds arbitrary: d rule: rev_induct)
  case Nil
  then show ?case by simp
next
  case (snoc x xs)
  show ?case
  proof (cases "doc_id x = doc_id d")
    case True
    have "x = d"
    proof (rule ccontr)
      assume "x \<noteq> d"
      with snoc.prems(2) have "d \<in> set xs" by auto
      then have "doc_id d \<in> doc_id ` set xs" by simp
      with snoc.prems(1) True show False by auto
    qed
    then show ?thesis by (simp add: document_effects_row)
  next
    case False
    with snoc.prems have "d \<in> set xs" "distinct (map doc_id xs)" by auto
    with snoc.IH False show ?thesis by (simp add: document_effects_row)
  qed
qed

subsection \<open>Ingestion, and a comparison that may stop early\<close>

lemma ingest_document_eq:
  "ingest_document env d w = (ingested env d, save_document (ingested env d) w)"
  by (simp add: ingest_document_def ingested_def split: sum.splits prod.splits)

lemma ingest_documents_eq:
  "ingest_documents env ds w =
     (map (ingested env) ds, save_documents (map (ingested env) ds) w)"
  by (induction ds arbitrary: w) (simp_all add: ingest_document_eq save_documents_def)

lemma ingest_try_fields:
  "ingest_try env d = Inr d' \<Longrightarrow>
     doc_id d' = doc_id d \<and> submission_id d' = submission_id d \<and> doc_type d' = doc_type d"
  "ingest_try env d = Inl (e, d1) \<Longrightarrow>
     doc_id d1 = doc_id d \<and> submission_id d1 = submission_id d \<and> doc_type d1 = doc_type d \<and>
     (doc_type d \<noteq> FILE \<longrightarrow> doc_text_raw d1 = doc_text_raw d)"
  by (auto simp: ingest_try_def Let_def split: if_splits sum.splits)

lemma ingested_doc_id [simp]: "doc_id (ingested env d) = doc_id d"
  by (auto simp: ingested_def ingest_except_def Let_def dest: ingest_try_fields
      split: sum.splits prod.splits)


lemma save_documents_journal:
  "journal (save_documents ds w) = journal w @ map DocumentSaved ds"
  unfolding save_documents_def
  by (induction ds arbitrary: w) (simp_all add: save_document_def)

lemma save_documents_submissions:
  "submission_table (save_documents ds w) = submission_table w"
  unfolding save_documents_def
  by (induction ds arbitrary: w) (simp_all add: save_document_def)

lemma save_documents_results:
  "result_table (save_documents ds w) = result_table w"
  unfolding save_documents_def
  by (induction ds arbitrary: w) (simp_all add: save_document_def)

lemma compare_document_unsearchable:
  "\<not> searchable env similar_count doc \<Longrightarrow>
   snd (compare_document env threshold similar_count round_factor docs doc w) = w \<and>
   fst (compare_document env threshold similar_count round_factor docs doc w) \<noteq> None"
  by (auto simp: searchable_def compare_document_def split: sum.splits)

lemma compare_loop_world:
  assumes "distinct (map doc_id docs)"
    and "\<forall>d\<in>set ds. doc_id d \<in> set (map doc_id docs)"
  shows "snd (compare_loop env threshold similar_count round_factor docs ds w) =
           foldl (\<lambda>w d. document_effects env threshold similar_count round_factor docs d w) w
             (takeWhile (searchable env similar_count) ds)"
  using assms(2)
proof (induction ds arbitrary: w)
  case Nil
  show ?case by simp
next
  case (Cons d ds)
  show ?case
  proof (cases "searchable env similar_count d")
    case True
    with Cons show ?thesis
      by (simp add: compare_document_eq [OF assms(1)])
  next
    case False
    from compare_document_unsearchable [OF False, of threshold round_factor docs w]
    show ?thesis using False
      by (cases "compare_document env threshold similar_count round_factor docs d w") auto
  qed
qed

lemma compare_loop_outcome:
  assumes "distinct (map doc_id docs)"
    and "\<forall>d\<in>set ds. doc_id d \<in> set (map doc_id docs)"
  shows "fst (compare_loop env threshold similar_count round_factor docs ds w) = None
           \<longleftrightarrow> list_all (searchable env similar_count) ds"
  using assms(2)
proof (induction ds arbitrary: w)
  case Nil
  show ?case by simp
next
  case (Cons d ds)
  show ?case
  proof (cases "searchable env similar_count d")
    case True
    with Cons show ?thesis
      by (simp add: compare_document_eq [OF assms(1)])
  next
    case False
    from compare_document_unsearchable [OF False, of threshold round_factor docs w]
    show ?thesis using False
      by (cases "compare_document env threshold similar_count round_factor docs d w") auto
  qed
qed

lemma upsert_filter_key:
  assumes "filter (\<lambda>x. key x = i) t = [s]" and "key s' = i"
  shows "filter (\<lambda>x. key x = i) (upsert key s' t) = [s']"
proof -
  from assms(1) have "s \<in> set (filter (\<lambda>x. key x = i) t)" by simp
  then have "s \<in> set t" and "key s = i" by simp_all
  then have mem: "key s' \<in> set (map key t)" using assms(2) by (auto simp: image_iff)
  have "filter (\<lambda>x. key x = i) (map (\<lambda>y. if key y = i then s' else y) t) =
          map (\<lambda>y. s') (filter (\<lambda>x. key x = i) t)"
    using assms(2) by (induction t) auto
  with mem assms show ?thesis by (simp add: upsert_def)
qed

lemma get_submission_Inr:
  "get_submission w i = Inr s \<longleftrightarrow> filter (\<lambda>x. sub_id x = i) (submission_table w) = [s]"
  by (auto simp: get_submission_def split: list.splits)

lemma get_submission_id: "get_submission w i = Inr s \<Longrightarrow> sub_id s = i"
proof -
  assume "get_submission w i = Inr s"
  then have "s \<in> set (filter (\<lambda>x. sub_id x = i) (submission_table w))"
    by (simp add: get_submission_Inr)
  then show ?thesis by simp
qed

section \<open>Aggregation and Results\<close>

lemma float64_0 [simp]: "float64 0 = 0"
  by (simp add: float64_def)

lemma ceil_round_0 [simp]: "ceil_round rf 0 = 0"
  by (simp add: ceil_round_def float_mul_def float_truediv_def)

text \<open>Up to \<^verbatim>\<open>round_decimal_places = 22\<close> the factor \<^verbatim>\<open>10 ** round_decimal_places\<close>
  is itself a binary64 value, so its conversion in the product does not round;
  the theorems about stored percentages are stated for that range.  Beyond it
  the conversion rounds: \<^verbatim>\<open>ceil(0.75 * 10 ** 23) / 10 ** 23\<close> is
  \<^verbatim>\<open>0.7499999999999999\<close>.\<close>

lemma round_factor_is_float_upto_22:
  "list_all (\<lambda>p. float64 (of_int (10 ^ p)) = of_int (10 ^ p)) [0..<23]"
  by code_simp

lemma round_factor_is_float:
  "places \<le> 22 \<Longrightarrow> float64 (of_int (10 ^ places)) = of_int (10 ^ places)"
  using round_factor_is_float_upto_22 by (simp add: list_all_iff)

lemma ceil_round_beyond_22:
  "ceil_round (10 ^ 23) (3 / 4) = 6755399441055743 / 9007199254740992"
  unfolding ceil_round_def float_mul_def float_truediv_def by code_simp

lemma compare_documents_world:
  assumes "distinct (map doc_id docs)"
    and "\<forall>d\<in>set docs. searchable env similar_count d"
  shows "compare_documents env docs threshold similar_count places w =
           (None, foldl (\<lambda>w d. document_effects env threshold similar_count (10 ^ places) docs d w)
                    w docs)"
  unfolding compare_documents_def
  using assms by (intro compare_loop_eq) auto

text \<open>
  Claim C1, as the code has it.  For every document of a batch (distinct primary
  keys, every corpus search returning) and \<^verbatim>\<open>round_decimal_places\<close> up to 22
  (the task passes 2), \<^verbatim>\<open>compare_documents\<close> stores as
  \<^verbatim>\<open>total_percentage\<close> the value \<^verbatim>\<open>ceil(aggregate * 10 ** places) / 10 ** places\<close>,
  where the numerator of the aggregate is the float sum of the scores of all
  successfully scored pairs (corpus candidates and siblings, above the threshold
  or not) and the denominator is the number of scores strictly above the
  threshold.  When that number is positive the aggregate is the quotient;
  otherwise it is the sum itself, undivided, which is \<^verbatim>\<open>0\<close> when no pair was
  scored.
\<close>

theorem aggregate_is_sum_over_match_count:
  assumes "distinct (map doc_id docs)"
    and "\<forall>d\<in>set docs. searchable env similar_count d"
    and "doc \<in> set docs"
    and "places \<le> 22"
  shows "let scores = pair_scores env similar_count docs doc;
             similaritySum = foldl float_add 0 scores;
             matchCount = length (filter (\<lambda>s. threshold < s) scores);
             w' = snd (compare_documents env docs threshold similar_count places w)
         in stored_total w' (doc_id doc) =
              Some (ceil_round (10 ^ places)
                      (if 0 < matchCount
                       then float_truediv similaritySum (of_nat matchCount)
                       else similaritySum))
            \<and> (scores = [] \<longrightarrow> stored_total w' (doc_id doc) = Some 0)"
proof -
  have "stored_total (snd (compare_documents env docs threshold similar_count places w)) (doc_id doc)
          = Some (ceil_round (10 ^ places) (aggregate threshold (pair_scores env similar_count docs doc)))"
    using foldl_effects_row [OF assms(1,3)]
    by (simp add: compare_documents_world [OF assms(1,2)] stored_total_def scored_document_def)
  then show ?thesis
    by (auto simp: Let_def aggregate_def similarity_sum_def match_count_def)
qed

lemma saves_of_append: "saves_of i (xs @ ys) = saves_of i xs @ saves_of i ys"
  by (induction i xs rule: saves_of.induct) simp_all

lemma saves_of_results [simp]: "saves_of i (map ResultCreated rs) = []"
  by (induction rs) simp_all

lemma saves_of_document_events:
  "saves_of i (document_events env threshold similar_count round_factor docs d) =
     (if doc_id d = i then [scored_document env threshold similar_count round_factor docs d] else [])"
  by (simp add: document_events_def saves_of_append scored_document_def)

lemma saves_of_run:
  assumes "distinct (map doc_id ds)" and "d \<in> set ds"
  shows "saves_of (doc_id d)
           (concat (map (document_events env threshold similar_count round_factor docs) ds)) =
         [scored_document env threshold similar_count round_factor docs d]"
  using assms
proof (induction ds)
  case Nil
  then show ?case by simp
next
  case (Cons x xs)
  have others: "\<forall>y\<in>set xs. doc_id y \<noteq> doc_id x"
    using Cons.prems(1) by (auto simp: image_iff)
  have none: "doc_id d \<notin> doc_id ` set ys \<Longrightarrow>
      saves_of (doc_id d) (concat (map (document_events env threshold similar_count round_factor docs) ys)) = []"
    for ys
    by (induction ys) (simp_all add: saves_of_append saves_of_document_events)
  show ?case
  proof (cases "x = d")
    case True
    with Cons.prems(1) have "doc_id d \<notin> doc_id ` set xs" by simp
    with True show ?thesis
      by (simp add: saves_of_append saves_of_document_events none)
  next
    case False
    with Cons.prems have "d \<in> set xs" by simp
    with others have "doc_id x \<noteq> doc_id d" by auto
    with Cons \<open>d \<in> set xs\<close> show ?thesis
      by (simp add: saves_of_append saves_of_document_events)
  qed
qed

text \<open>
  Claim C7.  For \<^verbatim>\<open>round_decimal_places\<close> up to 22 (the task passes 2), at the
  end of each document's comparison step the value
  \<^verbatim>\<open>ceil(average * 10 ** places) / 10 ** places\<close> is written to the document's
  \<^verbatim>\<open>total_percentage\<close> and the document is saved: the journal of the run is, for
  each document in turn, its Results followed by that one save; the run saves
  each document exactly once; and the row in the store carries the value
  afterwards.
\<close>

theorem total_percentage_persisted_once:
  assumes "distinct (map doc_id docs)"
    and "\<forall>d\<in>set docs. searchable env similar_count d"
    and "places \<le> 22"
  shows "let w' = snd (compare_documents env docs threshold similar_count places w);
             written = (\<lambda>doc. doc\<lparr>total_percentage :=
                          Some (ceil_round (10 ^ places)
                                  (aggregate threshold (pair_scores env similar_count docs doc)))\<rparr>)
         in journal w' =
              journal w @
              concat (map (\<lambda>doc.
                        map ResultCreated
                          (expected_results env threshold similar_count (10 ^ places) docs doc) @
                        [DocumentSaved (written doc)]) docs)
            \<and> (\<forall>doc\<in>set docs.
                  saves_of (doc_id doc) (drop (length (journal w)) (journal w')) = [written doc]
                  \<and> document_row w' (doc_id doc) = Some (written doc))"
proof -
  let ?rf = "10 ^ places :: int"
  let ?w' = "foldl (\<lambda>w d. document_effects env threshold similar_count ?rf docs d w) w docs"
  have j: "journal ?w' =
      journal w @ concat (map (document_events env threshold similar_count ?rf docs) docs)"
    by (rule foldl_effects_journal)
  have ev: "document_events env threshold similar_count ?rf docs =
      (\<lambda>doc. map ResultCreated (expected_results env threshold similar_count ?rf docs doc) @
         [DocumentSaved (doc\<lparr>total_percentage :=
                          Some (ceil_round ?rf
                                  (aggregate threshold (pair_scores env similar_count docs doc)))\<rparr>)])"
    by (rule ext) (simp add: document_events_def scored_document_def)
  have s: "\<forall>doc\<in>set docs. saves_of (doc_id doc) (drop (length (journal w)) (journal ?w')) =
        [scored_document env threshold similar_count ?rf docs doc]
      \<and> document_row ?w' (doc_id doc) = Some (scored_document env threshold similar_count ?rf docs doc)"
    using assms(1) by (simp add: j saves_of_run foldl_effects_row)
  show ?thesis
    unfolding Let_def compare_documents_world [OF assms(1,2)] snd_conv
    using j s by (simp add: ev scored_document_def)
qed


section \<open>Failing pairs and self-comparison\<close>

lemma map_filter_append: "List.map_filter f (xs @ ys) = List.map_filter f xs @ List.map_filter f ys"
  by (simp add: List.map_filter_def)

lemma scored_corpus_skip:
  "text_comparison env (doc_text doc) (text_preprocessed c) = Inl e \<Longrightarrow>
   scored_corpus env doc (cs1 @ c # cs2) = scored_corpus env doc (cs1 @ cs2)"
  by (simp add: scored_corpus_def map_filter_append map_filter_simps)

lemma scored_uploaded_skip:
  "text_comparison env (doc_text doc) (doc_text u) = Inl e \<Longrightarrow>
   scored_uploaded env doc (us1 @ u # us2) = scored_uploaded env doc (us1 @ us2)"
  by (simp add: scored_uploaded_def map_filter_append map_filter_simps)

text \<open>
  Claim C3.  A pair on which the engine raises leaves the loop state as if the
  pair had not been in the list: the sum, the count and the store (so the
  Results) are those of the loop without it, and the loop goes on with the
  candidates or siblings after it.  No engine failure makes the batch raise:
  when the corpus searches return, \<^verbatim>\<open>compare_documents\<close> returns normally whatever
  the engine does.
\<close>

theorem failed_pair_is_skipped:
  assumes "distinct (map doc_id docs)"
    and "\<forall>d\<in>set docs. searchable env similar_count d"
  shows "fst (compare_documents env docs threshold similar_count places w) = None
       \<and> (\<forall>doc c cs1 cs2 st e.
            text_comparison env (doc_text doc) (text_preprocessed c) = Inl e \<longrightarrow>
            compare_corpus env threshold round_factor doc (cs1 @ c # cs2) st =
            compare_corpus env threshold round_factor doc (cs1 @ cs2) st)
       \<and> (\<forall>doc u us1 us2 st e.
            text_comparison env (doc_text doc) (doc_text u) = Inl e \<longrightarrow>
            compare_uploaded env threshold round_factor doc (us1 @ u # us2) st =
            compare_uploaded env threshold round_factor doc (us1 @ us2) st)"
proof (intro conjI allI impI)
  show "fst (compare_documents env docs threshold similar_count places w) = None"
    by (simp add: compare_documents_world [OF assms])
next
  fix doc :: Document and c :: Candidate and cs1 cs2 e and st :: "rat \<times> nat \<times> world"
  assume "text_comparison env (doc_text doc) (text_preprocessed c) = Inl e"
  then show "compare_corpus env threshold round_factor doc (cs1 @ c # cs2) st =
             compare_corpus env threshold round_factor doc (cs1 @ cs2) st"
    by (cases st) (simp add: compare_corpus_eq corpus_matches_def scored_corpus_skip)
next
  fix doc u :: Document and us1 us2 e and st :: "rat \<times> nat \<times> world"
  assume "text_comparison env (doc_text doc) (doc_text u) = Inl e"
  then show "compare_uploaded env threshold round_factor doc (us1 @ u # us2) st =
             compare_uploaded env threshold round_factor doc (us1 @ us2) st"
    by (cases st) (simp add: compare_uploaded_eq uploaded_matches_def scored_uploaded_skip)
qed

lemma scored_uploaded_members:
  "(u, sim) \<in> set (scored_uploaded env doc us) \<longleftrightarrow>
     u \<in> set us \<and> text_comparison env (doc_text doc) (doc_text u) = Inr sim"
  by (induction us) (auto simp: scored_uploaded_def map_filter_simps split: sum.splits)

lemma scored_corpus_members:
  "(c, sim) \<in> set (scored_corpus env doc cs) \<longleftrightarrow>
     c \<in> set cs \<and> text_comparison env (doc_text doc) (text_preprocessed c) = Inr sim"
  by (induction cs) (auto simp: scored_corpus_def map_filter_simps split: sum.splits)

lemma expected_results_not_self:
  assumes "r \<in> set (expected_results env threshold similar_count round_factor docs doc)"
  shows "document r = doc_id doc \<and> (match_type r = UPLOADED \<longrightarrow> match_id r \<noteq> DocumentId (document r))"
  using assms
  by (auto simp: expected_results_def corpus_matches_def uploaded_matches_def corpus_result_def
      uploaded_result_def scored_uploaded_members siblings_def)

lemma compare_documents_results_general:
  assumes "distinct (map doc_id docs)"
  shows "result_table (snd (compare_documents env docs threshold similar_count places w)) =
           result_table w @
           concat (map (expected_results env threshold similar_count (10 ^ places) docs)
                     (takeWhile (searchable env similar_count) docs))"
  unfolding compare_documents_def
  using assms by (simp add: compare_loop_world foldl_effects_results)

text \<open>
  Claim C8.  In a batch (distinct primary keys) the sibling pool of a document
  is the batch with that document removed, the removal going by primary key and
  not by text; and no \<^verbatim>\<open>UPLOADED\<close> Result created by a run, completed or not,
  names as its match the document it belongs to.
\<close>

theorem no_self_comparison:
  assumes "distinct (map doc_id docs)"
  shows "(\<forall>d\<in>set docs. remove_doc d docs = Inr (filter (\<lambda>x. doc_id x \<noteq> doc_id d) docs))
       \<and> (\<forall>r\<in>set (drop (length (result_table w))
                    (result_table (snd (compare_documents env docs threshold similar_count places w)))).
            match_type r = UPLOADED \<longrightarrow> match_id r \<noteq> DocumentId (document r))"
proof (intro conjI ballI)
  fix d assume "d \<in> set docs"
  then show "remove_doc d docs = Inr (filter (\<lambda>x. doc_id x \<noteq> doc_id d) docs)"
    using remove_doc_siblings [OF assms, of d] by (simp add: siblings_def)
next
  fix r
  assume "r \<in> set (drop (length (result_table w))
                    (result_table (snd (compare_documents env docs threshold similar_count places w))))"
  then obtain doc where
    "r \<in> set (expected_results env threshold similar_count (10 ^ places) docs doc)"
    by (auto simp: compare_documents_results_general [OF assms])
  then show "match_type r = UPLOADED \<longrightarrow> match_id r \<noteq> DocumentId (document r)"
    by (rule expected_results_not_self [THEN conjunct2])
qed

lemma uploaded_matches_of:
  assumes "distinct (map doc_id us)" and "b \<in> set us"
    and "text_comparison env (doc_text a) (doc_text b) = Inr sim" and "threshold < similarity sim"
  shows "filter (\<lambda>r. match_id r = DocumentId (doc_id b))
           (uploaded_matches env threshold round_factor a us) =
         [uploaded_result round_factor a b sim]"
  using assms(1,2)
proof (induction us)
  case Nil
  then show ?case by simp
next
  case (Cons x xs)
  have none: "doc_id b \<notin> doc_id ` set ys \<Longrightarrow>
      filter (\<lambda>r. match_id r = DocumentId (doc_id b))
        (uploaded_matches env threshold round_factor a ys) = []" for ys
    by (induction ys)
      (auto simp: uploaded_matches_def scored_uploaded_def map_filter_simps uploaded_result_def
        split: sum.splits)
  show ?case
  proof (cases "x = b")
    case True
    with Cons.prems(1) have "doc_id b \<notin> doc_id ` set xs" by simp
    from none [OF this] True assms(3,4) show ?thesis
      by (simp add: uploaded_matches_def scored_uploaded_def map_filter_simps exceeds_def
          uploaded_result_def)
  next
    case False
    with Cons.prems have b: "b \<in> set xs" by simp
    with Cons.prems(1) have "doc_id x \<noteq> doc_id b" by (auto simp: image_iff)
    with Cons b show ?thesis
      by (auto simp: uploaded_matches_def scored_uploaded_def map_filter_simps uploaded_result_def
          split: sum.splits)
  qed
qed

lemma corpus_matches_not_uploaded:
  "filter (\<lambda>r. match_id r = DocumentId i) (corpus_matches env threshold round_factor a cs) = []"
  by (auto simp: corpus_matches_def corpus_result_def filter_empty_conv)

lemma results_on_document:
  assumes "distinct (map doc_id ds)" and "a \<in> set ds"
  shows "filter (\<lambda>r. document r = doc_id a \<and> Q r)
           (concat (map (expected_results env threshold similar_count round_factor docs) ds)) =
         filter Q (expected_results env threshold similar_count round_factor docs a)"
  using assms
proof (induction ds)
  case Nil
  then show ?case by simp
next
  case (Cons x xs)
  have own: "filter (\<lambda>r. document r = doc_id y \<and> Q r)
               (expected_results env threshold similar_count round_factor docs y) =
             filter Q (expected_results env threshold similar_count round_factor docs y)" for y
    by (rule filter_cong) (auto dest: expected_results_not_self)
  have other: "doc_id y \<noteq> doc_id a \<Longrightarrow>
      filter (\<lambda>r. document r = doc_id a \<and> Q r)
        (expected_results env threshold similar_count round_factor docs y) = []" for y
    by (auto simp: filter_empty_conv dest: expected_results_not_self)
  have none: "doc_id a \<notin> doc_id ` set ys \<Longrightarrow>
      filter (\<lambda>r. document r = doc_id a \<and> Q r)
        (concat (map (expected_results env threshold similar_count round_factor docs) ys)) = []" for ys
    by (induction ys) (auto simp: other image_iff)
  show ?case
  proof (cases "x = a")
    case True
    with Cons.prems(1) have "doc_id a \<notin> doc_id ` set xs" by simp
    from none [OF this] True show ?thesis by (simp add: own)
  next
    case False
    with Cons.prems have a: "a \<in> set xs" by simp
    with Cons.prems(1) have "doc_id x \<noteq> doc_id a" by (auto simp: image_iff)
    with Cons a show ?thesis by (simp add: other)
  qed
qed

section \<open>Both directions of a sibling pair\<close>

lemma scored_uploaded_of:
  assumes "distinct (map doc_id us)" and "b \<in> set us"
    and "text_comparison env (doc_text a) (doc_text b) = Inr sim"
  shows "filter (\<lambda>(u, s). doc_id u = doc_id b) (scored_uploaded env a us) = [(b, sim)]"
  using assms(1,2)
proof (induction us)
  case Nil
  then show ?case by simp
next
  case (Cons x xs)
  have none: "doc_id b \<notin> doc_id ` set ys \<Longrightarrow>
      filter (\<lambda>(u, s). doc_id u = doc_id b) (scored_uploaded env a ys) = []" for ys
    by (induction ys) (auto simp: scored_uploaded_def map_filter_simps split: sum.splits)
  show ?case
  proof (cases "x = b")
    case True
    with Cons.prems(1) have "doc_id b \<notin> doc_id ` set xs" by simp
    from none [OF this] True assms(3) show ?thesis
      by (simp add: scored_uploaded_def map_filter_simps)
  next
    case False
    with Cons.prems have b: "b \<in> set xs" by simp
    with Cons.prems(1) have "doc_id x \<noteq> doc_id b" by (auto simp: image_iff)
    with Cons b show ?thesis
      by (auto simp: scored_uploaded_def map_filter_simps split: sum.splits)
  qed
qed

lemma siblings_distinct:
  "distinct (map doc_id docs) \<Longrightarrow> distinct (map doc_id (siblings a docs))"
  by (simp add: siblings_def distinct_map_filter)

lemma siblings_member:
  "b \<in> set docs \<Longrightarrow> doc_id a \<noteq> doc_id b \<Longrightarrow> b \<in> set (siblings a docs)"
  by (simp add: siblings_def)

lemma sibling_result:
  assumes "distinct (map doc_id docs)" and "\<forall>d\<in>set docs. searchable env similar_count d"
    and "a \<in> set docs" and "b \<in> set docs" and "doc_id a \<noteq> doc_id b"
    and "text_comparison env (doc_text a) (doc_text b) = Inr ab" and "threshold < similarity ab"
  shows "filter (\<lambda>r. document r = doc_id a \<and> match_id r = DocumentId (doc_id b))
           (drop (length (result_table w))
              (result_table (snd (compare_documents env docs threshold similar_count places w)))) =
         [uploaded_result (10 ^ places) a b ab]"
proof -
  have "filter (\<lambda>r. match_id r = DocumentId (doc_id b))
          (expected_results env threshold similar_count (10 ^ places) docs a) =
        [uploaded_result (10 ^ places) a b ab]"
    using uploaded_matches_of [OF siblings_distinct [OF assms(1)] siblings_member [OF assms(4,5)] assms(6,7)]
    by (simp add: expected_results_def corpus_matches_not_uploaded)
  then show ?thesis
    by (simp add: compare_documents_world [OF assms(1,2)] foldl_effects_results
        results_on_document [OF assms(1,3)])
qed

lemma stored_total_run:
  assumes "distinct (map doc_id docs)" and "\<forall>d\<in>set docs. searchable env similar_count d"
    and "a \<in> set docs"
  shows "stored_total (snd (compare_documents env docs threshold similar_count places w)) (doc_id a) =
           Some (ceil_round (10 ^ places) (aggregate threshold (pair_scores env similar_count docs a)))"
  using foldl_effects_row [OF assms(1,3)]
  by (simp add: compare_documents_world [OF assms(1,2)] stored_total_def scored_document_def)

text \<open>
  Claim C10.  Two distinct documents \<open>a\<close> and \<open>b\<close> of a batch are scored twice in
  a run, \<open>a\<close> against \<open>b\<close> in the step of \<open>a\<close> and \<open>b\<close> against \<open>a\<close> in the step of
  \<open>b\<close>.  When both scores are above the threshold the run creates exactly one
  Result on \<open>a\<close> naming \<open>b\<close> and exactly one on \<open>b\<close> naming \<open>a\<close>, each from its own
  direction's score; the scored siblings of a document hold the other document
  exactly once, every entry being a call with the document's own text first;
  and the total stored for a document is the aggregate of its own scores.
\<close>

theorem sibling_pair_scored_in_both_directions:
  assumes "distinct (map doc_id docs)" and "\<forall>d\<in>set docs. searchable env similar_count d"
    and "a \<in> set docs" and "b \<in> set docs" and "doc_id a \<noteq> doc_id b"
    and "text_comparison env (doc_text a) (doc_text b) = Inr ab" and "threshold < similarity ab"
    and "text_comparison env (doc_text b) (doc_text a) = Inr ba" and "threshold < similarity ba"
  shows "let w' = snd (compare_documents env docs threshold similar_count places w);
             new = drop (length (result_table w)) (result_table w');
             scores = (\<lambda>doc. map (\<lambda>p. similarity (snd p))
                                (scored_corpus env doc (candidates env similar_count doc)) @
                              map (\<lambda>p. similarity (snd p))
                                (scored_uploaded env doc (siblings doc docs)))
         in filter (\<lambda>r. document r = doc_id a \<and> match_id r = DocumentId (doc_id b)) new =
              [uploaded_result (10 ^ places) a b ab]
          \<and> filter (\<lambda>r. document r = doc_id b \<and> match_id r = DocumentId (doc_id a)) new =
              [uploaded_result (10 ^ places) b a ba]
          \<and> filter (\<lambda>(u, s). doc_id u = doc_id b) (scored_uploaded env a (siblings a docs)) = [(b, ab)]
          \<and> filter (\<lambda>(u, s). doc_id u = doc_id a) (scored_uploaded env b (siblings b docs)) = [(a, ba)]
          \<and> (\<forall>(u, s)\<in>set (scored_uploaded env a (siblings a docs)).
                doc_id u \<noteq> doc_id a \<and> text_comparison env (doc_text a) (doc_text u) = Inr s)
          \<and> (\<forall>(u, s)\<in>set (scored_uploaded env b (siblings b docs)).
                doc_id u \<noteq> doc_id b \<and> text_comparison env (doc_text b) (doc_text u) = Inr s)
          \<and> stored_total w' (doc_id a) =
              Some (ceil_round (10 ^ places) (aggregate threshold (scores a)))
          \<and> stored_total w' (doc_id b) =
              Some (ceil_round (10 ^ places) (aggregate threshold (scores b)))"
proof -
  have ba': "doc_id b \<noteq> doc_id a" using assms(5) by simp
  note r1 = sibling_result [OF assms(1,2,3,4,5,6,7), where places = places and w = w]
  note r2 = sibling_result [OF assms(1,2,4,3) ba' assms(8,9), where places = places and w = w]
  note s1 = scored_uploaded_of [OF siblings_distinct [OF assms(1)] siblings_member [OF assms(4,5)] assms(6)]
  note s2 = scored_uploaded_of [OF siblings_distinct [OF assms(1)] siblings_member [OF assms(3) ba'] assms(8)]
  have m: "\<forall>(u, s)\<in>set (scored_uploaded env d (siblings d docs)).
             doc_id u \<noteq> doc_id d \<and> text_comparison env (doc_text d) (doc_text u) = Inr s" for d
    by (auto simp: scored_uploaded_members siblings_def)
  note t1 = stored_total_run [OF assms(1,2,3), where threshold = threshold and places = places and w = w]
  note t2 = stored_total_run [OF assms(1,2,4), where threshold = threshold and places = places and w = w]
  show ?thesis
    unfolding Let_def
    using r1 r2 s1 s2 m [of a] m [of b] t1 t2
    by (simp only: pair_scores_def simp_thms)
qed

section \<open>The task as a whole\<close>

lemma run_documents_distinct:
  "distinct (map doc_id (document_table w)) \<Longrightarrow> distinct (map doc_id (run_documents env w s))"
  by (simp add: run_documents_def submission_documents_def distinct_map_filter comp_def)

lemma submission_documents_saved [simp]:
  "submission_documents (save_submission (s\<lparr>status := st\<rparr>) w) (s\<lparr>status := st\<rparr>) =
     submission_documents w s"
  by (simp add: submission_documents_def save_submission_def)

lemma compare_documents_general:
  assumes "distinct (map doc_id docs)"
  shows "snd (compare_documents env docs threshold similar_count places w) =
           foldl (\<lambda>w d. document_effects env threshold similar_count (10 ^ places) docs d w) w
             (takeWhile (searchable env similar_count) docs)"
    and "fst (compare_documents env docs threshold similar_count places w) = None
           \<longleftrightarrow> list_all (searchable env similar_count) docs"
  unfolding compare_documents_def
  using assms by (simp_all add: compare_loop_world compare_loop_outcome)

lemma process_documents_resolved:
  assumes "get_submission w i = Inr s" and "distinct (map doc_id (document_table w))"
  shows "list_all (searchable env 10) (run_documents env w s) \<Longrightarrow>
         process_documents env i w =
           (case email s of
              None \<Rightarrow> (None, save_submission (s\<lparr>status := PROCESSED\<rparr>) (compared_world env s w))
            | Some address \<Rightarrow>
                dispatch_mail env (completion_mail env s address)
                  (save_submission (s\<lparr>status := PROCESSED\<rparr>) (compared_world env s w)))"
    and "\<not> list_all (searchable env 10) (run_documents env w s) \<Longrightarrow>
         snd (process_documents env i w) = compared_world env s w \<and>
         fst (process_documents env i w) \<noteq> None"
proof -
  let ?docs = "run_documents env w s"
  let ?w2 = "save_documents ?docs (save_submission (s\<lparr>status := PROCESSING\<rparr>) w)"
  let ?c = "compare_documents env ?docs (SIMILARITY_THRESHOLD env) 10 2 ?w2"
  have d: "distinct (map doc_id ?docs)" using assms(2) by (rule run_documents_distinct)
  have w3: "snd ?c = compared_world env s w"
    unfolding compare_documents_general(1) [OF d] by (simp only: compared_world_def Let_def)
  have out: "fst ?c = None \<longleftrightarrow> list_all (searchable env 10) ?docs"
    by (rule compare_documents_general(2) [OF d])
  have p: "process_documents env i w =
      (case ?c of
         (Some e, w3) \<Rightarrow> (Some e, w3)
       | (None, w3) \<Rightarrow>
           (case email s of
              None \<Rightarrow> (None, save_submission (s\<lparr>status := PROCESSED\<rparr>) w3)
            | Some address \<Rightarrow>
                dispatch_mail env (completion_mail env s address)
                  (save_submission (s\<lparr>status := PROCESSED\<rparr>) w3)))"
    by (simp add: process_documents_def assms(1) ingest_documents_eq run_documents_def Let_def
        split: prod.splits option.splits)
  {
    assume "list_all (searchable env 10) ?docs"
    with out w3 have "?c = (None, compared_world env s w)"
      by (cases ?c) simp
    then show "process_documents env i w =
           (case email s of
              None \<Rightarrow> (None, save_submission (s\<lparr>status := PROCESSED\<rparr>) (compared_world env s w))
            | Some address \<Rightarrow>
                dispatch_mail env (completion_mail env s address)
                  (save_submission (s\<lparr>status := PROCESSED\<rparr>) (compared_world env s w)))"
      by (simp only: p prod.case option.case)
  }
  {
    assume "\<not> list_all (searchable env 10) ?docs"
    with out w3 obtain e where "?c = (Some e, compared_world env s w)"
      by (cases ?c) auto
    then show "snd (process_documents env i w) = compared_world env s w \<and>
         fst (process_documents env i w) \<noteq> None"
      by (simp only: p prod.case option.case) simp
  }
qed

lemma compared_world_journal:
  "journal (compared_world env s w) =
     journal w @ SubmissionSaved (s\<lparr>status := PROCESSING\<rparr>) #
       work_events env (run_documents env w s)"
  by (simp add: compared_world_def Let_def foldl_effects_journal save_documents_journal
      save_submission_def work_events_def)

lemma compared_world_submissions:
  "submission_table (compared_world env s w) =
     upsert sub_id (s\<lparr>status := PROCESSING\<rparr>) (submission_table w)"
  by (simp add: compared_world_def Let_def foldl_effects_submissions save_documents_submissions
      save_submission_def)

lemma work_events_are_document_work: "list_all is_document_work (work_events env docs)"
proof -
  have a: "list_all is_document_work (map DocumentSaved xs)" for xs
    by (induction xs) simp_all
  have b: "list_all is_document_work (map ResultCreated xs)" for xs
    by (induction xs) simp_all
  have c: "list_all is_document_work (concat (map (document_events env t n rf ds) xs))"
    for t n rf ds xs
    by (induction xs) (simp_all add: document_events_def b)
  show ?thesis
    unfolding work_events_def list_all_append using a c by blast
qed

lemma saved_statuses_append:
  "saved_statuses (xs @ ys) = saved_statuses xs @ saved_statuses ys"
  by (induction xs rule: saved_statuses.induct) simp_all

lemma saved_statuses_work:
  "list_all is_document_work es \<Longrightarrow> saved_statuses es = []"
  by (induction es rule: saved_statuses.induct) simp_all

lemma saved_statuses_mail [simp]: "saved_statuses (mail_events env s) = []"
  by (simp add: mail_events_def split: option.splits)

lemma dispatch_mail_world:
  "snd (dispatch_mail env m w) = w\<lparr>journal := journal w @ [MailDispatched m]\<rparr>"
  "fst (dispatch_mail env m w) = (case send_mail env m of Inl e \<Rightarrow> Some e | Inr u \<Rightarrow> None)"
  by (simp_all add: dispatch_mail_def split: sum.splits)

lemma process_documents_journal:
  assumes "get_submission w i = Inr s" and "distinct (map doc_id (document_table w))"
  shows "journal (snd (process_documents env i w)) =
           journal w @ SubmissionSaved (s\<lparr>status := PROCESSING\<rparr>) #
             work_events env (run_documents env w s) @
             (if list_all (searchable env 10) (run_documents env w s)
              then SubmissionSaved (s\<lparr>status := PROCESSED\<rparr>) # mail_events env s
              else [])"
proof (cases "list_all (searchable env 10) (run_documents env w s)")
  case True
  show ?thesis
    unfolding process_documents_resolved(1) [OF assms True]
    using True
    by (simp add: dispatch_mail_world save_submission_def compared_world_journal mail_events_def
        split: option.splits)
next
  case False
  show ?thesis
    using process_documents_resolved(2) [OF assms False] False
    by (simp add: compared_world_journal)
qed

text \<open>
  Claim C4, as the code has it.  In every run that resolves its submission the
  first effect is the save of status \<^verbatim>\<open>PROCESSING\<close>; all work on documents (the
  saves of ingestion, the Results and saves of the comparison) comes after it;
  and when the comparison step completes, whatever ingestion failures there
  were, the save of status \<^verbatim>\<open>PROCESSED\<close> follows that work.  The run does not
  look at the status it finds, so the status never moves backwards provided the
  submission was not already \<^verbatim>\<open>PROCESSED\<close> when the run started.
\<close>

theorem status_transitions_in_order:
  assumes "get_submission w i = Inr s" and "distinct (map doc_id (document_table w))"
  shows "let docs = run_documents env w s;
             w' = snd (process_documents env i w)
         in journal w' =
              journal w @ SubmissionSaved (s\<lparr>status := PROCESSING\<rparr>) #
                work_events env docs @
                (if list_all (searchable env 10) docs
                 then SubmissionSaved (s\<lparr>status := PROCESSED\<rparr>) # mail_events env s
                 else [])
          \<and> list_all is_document_work (work_events env docs)
          \<and> (status s \<noteq> PROCESSED \<longrightarrow>
               sorted (map status_rank
                 (status s # saved_statuses (drop (length (journal w)) (journal w')))))"
proof -
  note j = process_documents_journal [OF assms, of env]
  have st: "saved_statuses (drop (length (journal w)) (journal (snd (process_documents env i w)))) =
      (if list_all (searchable env 10) (run_documents env w s)
       then [PROCESSING, PROCESSED] else [PROCESSING])"
    by (simp add: j saved_statuses_append saved_statuses_work [OF work_events_are_document_work])
  have "status s \<noteq> PROCESSED \<Longrightarrow> status_rank (status s) \<le> 1"
    by (cases "status s") simp_all
  then have m: "status s \<noteq> PROCESSED \<longrightarrow>
      sorted (map status_rank
        (status s # saved_statuses (drop (length (journal w)) (journal (snd (process_documents env i w))))))"
    unfolding st by auto
  show ?thesis
    unfolding Let_def using j m work_events_are_document_work by blast
qed

text \<open>
  Claim C6.  When no Submission has the given identifier, \<^verbatim>\<open>process_documents\<close>
  returns without an exception and the store is unchanged: no status is saved,
  no document touched, no Result created, no mail dispatched.
\<close>

theorem unknown_submission_is_noop:
  assumes "\<forall>s\<in>set (submission_table w). sub_id s \<noteq> i"
  shows "process_documents env i w = (None, w)"
proof -
  from assms have "filter (\<lambda>s. sub_id s = i) (submission_table w) = []"
    by (simp add: filter_empty_conv)
  then show ?thesis
    by (simp add: process_documents_def get_submission_def)
qed


text \<open>
  Claim C9.  In a run whose comparison completes, the last save is that of
  status \<^verbatim>\<open>PROCESSED\<close>; after it a completion mail to the contact address, with
  the submission identifier as the argument of its message, is dispatched if and
  only if the Submission has an address; no mail is dispatched before; and
  whatever \<^verbatim>\<open>send_mail\<close> does (its exception leaves the task), the stored status
  is \<^verbatim>\<open>PROCESSED\<close> afterwards.
\<close>

theorem notification_after_processed:
  assumes "get_submission w i = Inr s" and "distinct (map doc_id (document_table w))"
    and "list_all (searchable env 10) (run_documents env w s)"
  shows "let outcome = fst (process_documents env i w);
             w' = snd (process_documents env i w)
         in get_submission w' i = Inr (s\<lparr>status := PROCESSED\<rparr>)
          \<and> drop (length (journal w)) (journal w') =
              SubmissionSaved (s\<lparr>status := PROCESSING\<rparr>) #
                work_events env (run_documents env w s) @
                SubmissionSaved (s\<lparr>status := PROCESSED\<rparr>) #
                (case email s of
                   None \<Rightarrow> []
                 | Some address \<Rightarrow> [MailDispatched (completion_mail env s address)])
          \<and> list_all is_document_work (work_events env (run_documents env w s))
          \<and> (case email s of
                None \<Rightarrow> outcome = None
              | Some address \<Rightarrow>
                  message_arg (completion_mail env s address) = i
                  \<and> recipient_list (completion_mail env s address) = [address]
                  \<and> outcome =
                      (case send_mail env (completion_mail env s address) of
                         Inl e \<Rightarrow> Some e
                       | Inr u \<Rightarrow> None))"
proof -
  note p = process_documents_resolved(1) [OF assms]
  have id: "sub_id s = i" using assms(1) by (rule get_submission_id)
  have f0: "filter (\<lambda>x. sub_id x = i) (submission_table w) = [s]"
    using assms(1) by (simp add: get_submission_Inr)
  have f1: "filter (\<lambda>x. sub_id x = i)
              (upsert sub_id (s\<lparr>status := PROCESSING\<rparr>) (submission_table w)) =
            [s\<lparr>status := PROCESSING\<rparr>]"
    using f0 id by (intro upsert_filter_key) simp_all
  have f2: "filter (\<lambda>x. sub_id x = i)
              (upsert sub_id (s\<lparr>status := PROCESSED\<rparr>)
                 (upsert sub_id (s\<lparr>status := PROCESSING\<rparr>) (submission_table w))) =
            [s\<lparr>status := PROCESSED\<rparr>]"
    using f1 id by (intro upsert_filter_key) simp_all
  have tbl: "submission_table (snd (process_documents env i w)) =
      upsert sub_id (s\<lparr>status := PROCESSED\<rparr>)
        (upsert sub_id (s\<lparr>status := PROCESSING\<rparr>) (submission_table w))"
    by (simp add: p dispatch_mail_world save_submission_def compared_world_submissions
        split: option.splits)
  have g: "get_submission (snd (process_documents env i w)) i = Inr (s\<lparr>status := PROCESSED\<rparr>)"
    by (simp add: get_submission_Inr tbl f2)
  have j: "drop (length (journal w)) (journal (snd (process_documents env i w))) =
      SubmissionSaved (s\<lparr>status := PROCESSING\<rparr>) #
        work_events env (run_documents env w s) @
        SubmissionSaved (s\<lparr>status := PROCESSED\<rparr>) #
        (case email s of
           None \<Rightarrow> []
         | Some address \<Rightarrow> [MailDispatched (completion_mail env s address)])"
    using assms(3) by (simp add: process_documents_journal [OF assms(1,2)] mail_events_def)
  have out: "case email s of
                None \<Rightarrow> fst (process_documents env i w) = None
              | Some address \<Rightarrow>
                  message_arg (completion_mail env s address) = i
                  \<and> recipient_list (completion_mail env s address) = [address]
                  \<and> fst (process_documents env i w) =
                      (case send_mail env (completion_mail env s address) of
                         Inl e \<Rightarrow> Some e
                       | Inr u \<Rightarrow> None)"
    by (simp add: p dispatch_mail_world completion_mail_def id split: option.splits)
  show ?thesis
    unfolding Let_def using g j out work_events_are_document_work by blast
qed

section \<open>The claims on the concrete runs\<close>

lemma float64_08: "float64 (4 / 5) = 3602879701896397 / 4503599627370496"
  by code_simp

lemma float64_03: "float64 (3 / 10) = 5404319552844595 / 18014398509481984"
  by code_simp

lemma scenario_distinct: "distinct (map doc_id [doc_d, doc_s])"
  by (simp add: doc_d_def doc_s_def)

lemma scenario_searchable: "\<forall>d\<in>set [doc_d, doc_s]. searchable scenario_env 10 d"
  by (simp add: searchable_def scenario_env_def doc_d_def doc_s_def)

lemma scenario_scores_d:
  "pair_scores scenario_env 10 [doc_d, doc_s] doc_d = [float64 (4 / 5), float64 (3 / 10)]"
  by (simp add: pair_scores_def scored_corpus_def scored_uploaded_def candidates_def siblings_def
      scenario_env_def doc_d_def doc_s_def cand_c_def map_filter_simps)

lemma scenario_scores_s:
  "pair_scores scenario_env 10 [doc_d, doc_s] doc_s = [float64 (3 / 10)]"
  by (simp add: pair_scores_def scored_corpus_def scored_uploaded_def candidates_def siblings_def
      scenario_env_def doc_d_def doc_s_def cand_c_def map_filter_simps)

lemma scenario_sum_d:
  "foldl float_add 0 [float64 (4 / 5), float64 (3 / 10)] = float64 (11 / 10)"
  unfolding float_add_def by code_simp

lemma scenario_count_d:
  "length (filter (\<lambda>s. 1 / 2 < s) [float64 (4 / 5), float64 (3 / 10)]) = 1"
  by code_simp

lemma scenario_average_d: "float_truediv (float64 (11 / 10)) 1 = float64 (11 / 10)"
  unfolding float_truediv_def by code_simp

lemma scenario_total_d: "ceil_round 100 (float64 (11 / 10)) = float64 (111 / 100)"
  unfolding ceil_round_def float_mul_def float_truediv_def by code_simp

lemma scenario_sum_s: "foldl float_add 0 [float64 (3 / 10)] = float64 (3 / 10)"
  unfolding float_add_def by code_simp

lemma scenario_count_s: "length (filter (\<lambda>s. 1 / 2 < s) [float64 (3 / 10)]) = 0"
  by code_simp

lemma scenario_total_s: "ceil_round 100 (float64 (3 / 10)) = float64 (3 / 10)"
  unfolding ceil_round_def float_mul_def float_truediv_def by code_simp


lemma float_111_not_110: "float64 (111 / 100) \<noteq> float64 (11 / 10)"
  by code_simp

lemma float_03_not_0: "float64 (3 / 10) \<noteq> 0"
  by code_simp

lemma scenario_aggregate_d:
  "aggregate (1 / 2) [float64 (4 / 5), float64 (3 / 10)] = float64 (11 / 10)"
  unfolding aggregate_def match_count_def similarity_sum_def float_add_def float_truediv_def
  by code_simp

lemma scenario_aggregate_s:
  "aggregate (1 / 2) [float64 (3 / 10)] = float64 (3 / 10)"
  unfolding aggregate_def match_count_def similarity_sum_def float_add_def float_truediv_def
  by code_simp

text \<open>
  Claim C1 on the concrete batch: the sum and the average of \<open>d\<close> are the float
  \<^verbatim>\<open>1.1\<close>, and the stored total is \<^verbatim>\<open>1.11\<close>, since \<^verbatim>\<open>1.1 * 100\<close> is
  \<^verbatim>\<open>110.00000000000001\<close> in binary64 and \<^verbatim>\<open>ceil\<close> takes it to \<^verbatim>\<open>111\<close>.
\<close>

theorem aggregate_is_sum_over_match_count_witness:
  "distinct (map doc_id [doc_d, doc_s])
   \<and> searchable scenario_env 10 doc_d \<and> searchable scenario_env 10 doc_s
   \<and> (2::nat) \<le> 22
   \<and> stored_total
       (snd (compare_documents scenario_env [doc_d, doc_s] (1 / 2) 10 2 scenario_world)) 1 =
     Some (float64 (111 / 100))"
proof -
  have m: "doc_d \<in> set [doc_d, doc_s]" by simp
  have i: "doc_id doc_d = 1" by (simp add: doc_d_def)
  have b: "(2::nat) \<le> 22" by simp
  from aggregate_is_sum_over_match_count [OF scenario_distinct scenario_searchable m b,
      where threshold = "1 / 2" and w = scenario_world]
  have "stored_total
       (snd (compare_documents scenario_env [doc_d, doc_s] (1 / 2) 10 2 scenario_world)) 1 =
     Some (float64 (111 / 100))"
    unfolding Let_def scenario_scores_d scenario_sum_d scenario_count_d i
    by (simp add: scenario_average_d scenario_total_d)
  with scenario_distinct scenario_searchable show ?thesis by simp
qed

text \<open>
  Claim C1 as stated fails here twice.  The total stored for \<open>d\<close> is \<^verbatim>\<open>1.11\<close>, not
  \<^verbatim>\<open>1.10\<close>.  And \<open>s\<close>, whose only scored pair is at \<^verbatim>\<open>0.3\<close>, has no score above the
  threshold, yet its total is \<^verbatim>\<open>0.3\<close> and not \<^verbatim>\<open>0\<close>.
\<close>

theorem aggregate_counterexample:
  "stored_total
     (snd (compare_documents scenario_env [doc_d, doc_s] (1 / 2) 10 2 scenario_world)) 1 =
   Some (float64 (111 / 100))
   \<and> float64 (111 / 100) \<noteq> float64 (11 / 10)
   \<and> match_count (1 / 2) (pair_scores scenario_env 10 [doc_d, doc_s] doc_s) = 0
   \<and> stored_total
       (snd (compare_documents scenario_env [doc_d, doc_s] (1 / 2) 10 2 scenario_world)) 2 =
     Some (float64 (3 / 10))
   \<and> float64 (3 / 10) \<noteq> 0"
proof -
  have md: "doc_d \<in> set [doc_d, doc_s]" and ms: "doc_s \<in> set [doc_d, doc_s]" by simp_all
  have i: "doc_id doc_d = 1" "doc_id doc_s = 2" by (simp_all add: doc_d_def doc_s_def)
  have d: "stored_total
     (snd (compare_documents scenario_env [doc_d, doc_s] (1 / 2) 10 2 scenario_world)) 1 =
   Some (float64 (111 / 100))"
    using stored_total_run [OF scenario_distinct scenario_searchable md,
      where threshold = "1 / 2" and places = 2 and w = scenario_world]
    unfolding scenario_scores_d scenario_aggregate_d i
    by (simp add: scenario_total_d)
  have s: "stored_total
     (snd (compare_documents scenario_env [doc_d, doc_s] (1 / 2) 10 2 scenario_world)) 2 =
   Some (float64 (3 / 10))"
    using stored_total_run [OF scenario_distinct scenario_searchable ms,
      where threshold = "1 / 2" and places = 2 and w = scenario_world]
    unfolding scenario_scores_s scenario_aggregate_s i
    by (simp add: scenario_total_s)
  have c: "match_count (1 / 2) (pair_scores scenario_env 10 [doc_d, doc_s] doc_s) = 0"
    unfolding scenario_scores_s match_count_def by (rule scenario_count_s)
  from d s c float_111_not_110 float_03_not_0 show ?thesis by blast
qed

lemma mutual_searchable: "\<forall>d\<in>set [doc_d, doc_s]. searchable mutual_env 10 d"
  by (simp add: searchable_def mutual_env_def scenario_env_def)










text \<open>Claim C3 on the concrete batch: the engine fails on \<open>s\<close> against the
  candidate and on \<open>d\<close> against the file.\<close>

theorem failed_pair_is_skipped_witness:
  "distinct (map doc_id [doc_d, doc_s])
   \<and> searchable scenario_env 10 doc_d \<and> searchable scenario_env 10 doc_s
   \<and> fst (compare_documents scenario_env [doc_d, doc_s] (1 / 2) 10 2 scenario_world) = None
   \<and> text_comparison scenario_env (doc_text doc_s) (text_preprocessed cand_c) =
       Inl (Raised ''incomparable'')
   \<and> compare_corpus scenario_env (1 / 2) 100 doc_s [cand_c] (0, 0, scenario_world) =
       (0, 0, scenario_world)
   \<and> text_comparison scenario_env (doc_text doc_s) (doc_text doc_f) =
       Inl (Raised ''incomparable'')
   \<and> compare_uploaded scenario_env (1 / 2) 100 doc_d [doc_f, doc_s] (0, 0, scenario_world) =
       compare_uploaded scenario_env (1 / 2) 100 doc_d [doc_s] (0, 0, scenario_world)"
proof -
  note t = failed_pair_is_skipped [OF scenario_distinct scenario_searchable,
      where threshold = "1 / 2" and places = 2 and w = scenario_world and round_factor = 100]
  have c: "text_comparison scenario_env (doc_text doc_s) (text_preprocessed cand_c) =
       Inl (Raised ''incomparable'')"
    by (simp add: scenario_env_def doc_s_def cand_c_def)
  have u: "text_comparison scenario_env (doc_text doc_s) (doc_text doc_f) =
       Inl (Raised ''incomparable'')"
    by (simp add: scenario_env_def doc_s_def doc_f_def)
  have u': "text_comparison scenario_env (doc_text doc_d) (doc_text doc_f) =
       Inl (Raised ''incomparable'')"
    by (simp add: scenario_env_def doc_d_def doc_f_def)
  from t have "compare_corpus scenario_env (1 / 2) 100 doc_s ([] @ cand_c # [])
                 (0, 0, scenario_world) =
               compare_corpus scenario_env (1 / 2) 100 doc_s ([] @ []) (0, 0, scenario_world)"
    using c by blast
  then have r1: "compare_corpus scenario_env (1 / 2) 100 doc_s [cand_c] (0, 0, scenario_world) =
       (0, 0, scenario_world)" by simp
  from t have "compare_uploaded scenario_env (1 / 2) 100 doc_d ([] @ doc_f # [doc_s])
                 (0, 0, scenario_world) =
               compare_uploaded scenario_env (1 / 2) 100 doc_d ([] @ [doc_s]) (0, 0, scenario_world)"
    using u' by blast
  then have r2: "compare_uploaded scenario_env (1 / 2) 100 doc_d [doc_f, doc_s] (0, 0, scenario_world) =
       compare_uploaded scenario_env (1 / 2) 100 doc_d [doc_s] (0, 0, scenario_world)"
    by (simp only: append_Nil)
  from t have r0: "fst (compare_documents scenario_env [doc_d, doc_s] (1 / 2) 10 2 scenario_world) = None"
    by blast
  from scenario_distinct scenario_searchable r0 c r1 u r2 show ?thesis by simp
qed

lemma scenario_aggregate_d':
  "aggregate (1 / 2) (pair_scores scenario_env 10 [doc_d, doc_s] doc_d) = float64 (11 / 10)"
  by (simp only: scenario_scores_d scenario_aggregate_d)

text \<open>Claim C7 on the concrete batch.\<close>

theorem total_percentage_persisted_once_witness:
  "distinct (map doc_id [doc_d, doc_s])
   \<and> searchable scenario_env 10 doc_d \<and> searchable scenario_env 10 doc_s
   \<and> (2::nat) \<le> 22
   \<and> saves_of 1
       (journal (snd (compare_documents scenario_env [doc_d, doc_s] (1 / 2) 10 2 scenario_world))) =
     [doc_d\<lparr>total_percentage := Some (float64 (111 / 100))\<rparr>]
   \<and> document_row
       (snd (compare_documents scenario_env [doc_d, doc_s] (1 / 2) 10 2 scenario_world)) 1 =
     Some (doc_d\<lparr>total_percentage := Some (float64 (111 / 100))\<rparr>)"
proof -
  have e: "journal scenario_world = []" by (simp add: scenario_world_def)
  have i: "doc_id doc_d = 1" by (simp add: doc_d_def)
  have m: "doc_d \<in> set [doc_d, doc_s]" by simp
  have p: "(10::int) ^ 2 = 100" by simp
  have b: "(2::nat) \<le> 22" by simp
  from total_percentage_persisted_once [OF scenario_distinct scenario_searchable b,
      where threshold = "1 / 2" and w = scenario_world]
  have "\<forall>doc\<in>set [doc_d, doc_s].
      saves_of (doc_id doc)
        (journal (snd (compare_documents scenario_env [doc_d, doc_s] (1 / 2) 10 2 scenario_world))) =
      [doc\<lparr>total_percentage :=
             Some (ceil_round 100 (aggregate (1 / 2) (pair_scores scenario_env 10 [doc_d, doc_s] doc)))\<rparr>]
      \<and> document_row
        (snd (compare_documents scenario_env [doc_d, doc_s] (1 / 2) 10 2 scenario_world)) (doc_id doc) =
      Some (doc\<lparr>total_percentage :=
             Some (ceil_round 100 (aggregate (1 / 2) (pair_scores scenario_env 10 [doc_d, doc_s] doc)))\<rparr>)"
    unfolding Let_def e p list.size drop_0 by blast
  from this [rule_format, OF m]
  have "saves_of 1
       (journal (snd (compare_documents scenario_env [doc_d, doc_s] (1 / 2) 10 2 scenario_world))) =
     [doc_d\<lparr>total_percentage := Some (float64 (111 / 100))\<rparr>]
   \<and> document_row
       (snd (compare_documents scenario_env [doc_d, doc_s] (1 / 2) 10 2 scenario_world)) 1 =
     Some (doc_d\<lparr>total_percentage := Some (float64 (111 / 100))\<rparr>)"
    unfolding scenario_aggregate_d' scenario_total_d i .
  with scenario_distinct scenario_searchable show ?thesis by simp
qed

lemma mutual_ab:
  "text_comparison mutual_env (doc_text doc_d) (doc_text doc_s) =
     Inr \<lparr>similarity = 3 / 4, intervals = [(0, 1)]\<rparr>"
  by (simp add: mutual_env_def doc_d_def doc_s_def)

lemma mutual_ba:
  "text_comparison mutual_env (doc_text doc_s) (doc_text doc_d) =
     Inr \<lparr>similarity = 7 / 8, intervals = [(2, 3)]\<rparr>"
  by (simp add: mutual_env_def doc_d_def doc_s_def)

lemma mutual_percentage_ab: "ceil_round 100 (3 / 4) = 3 / 4"
  unfolding ceil_round_def float_mul_def float_truediv_def by code_simp

lemma mutual_percentage_ba: "ceil_round 100 (7 / 8) = float64 (88 / 100)"
  unfolding ceil_round_def float_mul_def float_truediv_def by code_simp

lemma mutual_results:
  "result_table (snd (compare_documents mutual_env [doc_d, doc_s] (1 / 2) 10 2 scenario_world)) =
     [uploaded_result 100 doc_d doc_s \<lparr>similarity = 3 / 4, intervals = [(0, 1)]\<rparr>,
      uploaded_result 100 doc_s doc_d \<lparr>similarity = 7 / 8, intervals = [(2, 3)]\<rparr>]"
proof -
  have e: "result_table scenario_world = []" by (simp add: scenario_world_def)
  have c: "scored_corpus mutual_env d (candidates mutual_env 10 d) = []" for d
    by (simp add: scored_corpus_def candidates_def mutual_env_def map_filter_simps)
  have ud: "scored_uploaded mutual_env doc_d (siblings doc_d [doc_d, doc_s]) =
      [(doc_s, \<lparr>similarity = 3 / 4, intervals = [(0, 1)]\<rparr>)]"
    by (simp add: scored_uploaded_def siblings_def mutual_env_def doc_d_def doc_s_def
        map_filter_simps)
  have us: "scored_uploaded mutual_env doc_s (siblings doc_s [doc_d, doc_s]) =
      [(doc_d, \<lparr>similarity = 7 / 8, intervals = [(2, 3)]\<rparr>)]"
    by (simp add: scored_uploaded_def siblings_def mutual_env_def doc_d_def doc_s_def
        map_filter_simps)
  show ?thesis
    by (simp add: compare_documents_results_general [OF scenario_distinct]
        mutual_searchable [simplified] e expected_results_def corpus_matches_def uploaded_matches_def
        c ud us exceeds_def)
qed

text \<open>Claim C8 on the batch with the second engine, where both sibling pairs
  match.\<close>

theorem no_self_comparison_witness:
  "distinct (map doc_id [doc_d, doc_s])
   \<and> remove_doc doc_d [doc_d, doc_s] = Inr [doc_s]
   \<and> remove_doc doc_s [doc_d, doc_s] = Inr [doc_d]
   \<and> map (\<lambda>r. (document r, match_type r, match_id r))
       (result_table (snd (compare_documents mutual_env [doc_d, doc_s] (1 / 2) 10 2 scenario_world))) =
     [(1, UPLOADED, DocumentId 2), (2, UPLOADED, DocumentId 1)]"
proof -
  note t = no_self_comparison [OF scenario_distinct,
      where env = mutual_env and threshold = "1 / 2" and similar_count = 10 and places = 2
        and w = scenario_world]
  have i: "doc_id doc_d = 1" "doc_id doc_s = 2" by (simp_all add: doc_d_def doc_s_def)
  from t have "\<forall>d\<in>set [doc_d, doc_s].
      remove_doc d [doc_d, doc_s] = Inr (filter (\<lambda>x. doc_id x \<noteq> doc_id d) [doc_d, doc_s])"
    by blast
  then have r: "remove_doc doc_d [doc_d, doc_s] = Inr [doc_s]"
    "remove_doc doc_s [doc_d, doc_s] = Inr [doc_d]"
    by (simp_all add: i)
  have m: "map (\<lambda>r. (document r, match_type r, match_id r))
       (result_table (snd (compare_documents mutual_env [doc_d, doc_s] (1 / 2) 10 2 scenario_world))) =
     [(1, UPLOADED, DocumentId 2), (2, UPLOADED, DocumentId 1)]"
    by (simp add: mutual_results uploaded_result_def i)
  from scenario_distinct r m show ?thesis by simp
qed

lemma mutual_total_d:
  "ceil_round 100 (aggregate (1 / 2) [3 / 4]) = 3 / 4"
  unfolding aggregate_def match_count_def similarity_sum_def float_add_def float_truediv_def
    ceil_round_def float_mul_def
  by code_simp

lemma mutual_total_s:
  "ceil_round 100 (aggregate (1 / 2) [7 / 8]) = float64 (88 / 100)"
  unfolding aggregate_def match_count_def similarity_sum_def float_add_def float_truediv_def
    ceil_round_def float_mul_def
  by code_simp

text \<open>Claim C10 on the batch with the second engine: \<^verbatim>\<open>0.75\<close> is stored for \<open>d\<close>,
  and \<^verbatim>\<open>0.88\<close> (\<^verbatim>\<open>ceil(87.5) / 100\<close>) for \<open>s\<close>.\<close>

theorem sibling_pair_scored_in_both_directions_witness:
  "distinct (map doc_id [doc_d, doc_s])
   \<and> searchable mutual_env 10 doc_d \<and> searchable mutual_env 10 doc_s
   \<and> doc_id doc_d \<noteq> doc_id doc_s
   \<and> text_comparison mutual_env (doc_text doc_d) (doc_text doc_s) =
       Inr \<lparr>similarity = 3 / 4, intervals = [(0, 1)]\<rparr>
   \<and> text_comparison mutual_env (doc_text doc_s) (doc_text doc_d) =
       Inr \<lparr>similarity = 7 / 8, intervals = [(2, 3)]\<rparr>
   \<and> filter (\<lambda>r. document r = 1 \<and> match_id r = DocumentId 2)
       (result_table (snd (compare_documents mutual_env [doc_d, doc_s] (1 / 2) 10 2 scenario_world))) =
     [\<lparr>document = 1, match_type = UPLOADED, match_id = DocumentId 2, match_name = ''s'',
       percentage = 3 / 4, ranges = [(0, 1)]\<rparr>]
   \<and> filter (\<lambda>r. document r = 2 \<and> match_id r = DocumentId 1)
       (result_table (snd (compare_documents mutual_env [doc_d, doc_s] (1 / 2) 10 2 scenario_world))) =
     [\<lparr>document = 2, match_type = UPLOADED, match_id = DocumentId 1, match_name = ''d'',
       percentage = float64 (88 / 100), ranges = [(2, 3)]\<rparr>]
   \<and> stored_total
       (snd (compare_documents mutual_env [doc_d, doc_s] (1 / 2) 10 2 scenario_world)) 1 =
     Some (3 / 4)
   \<and> stored_total
       (snd (compare_documents mutual_env [doc_d, doc_s] (1 / 2) 10 2 scenario_world)) 2 =
     Some (float64 (88 / 100))"
proof -
  have md: "doc_d \<in> set [doc_d, doc_s]" and ms: "doc_s \<in> set [doc_d, doc_s]" by simp_all
  have i: "doc_id doc_d = 1" "doc_id doc_s = 2" by (simp_all add: doc_d_def doc_s_def)
  have ne: "doc_id doc_d \<noteq> doc_id doc_s" by (simp add: i)
  have g1: "1 / 2 < similarity \<lparr>similarity = 3 / 4, intervals = [(0, 1)]\<rparr>" by simp
  have g2: "1 / 2 < similarity \<lparr>similarity = 7 / 8, intervals = [(2, 3)]\<rparr>" by simp
  have e: "result_table scenario_world = []" by (simp add: scenario_world_def)
  have p: "(10::int) ^ 2 = 100" by simp
  have c: "scored_corpus mutual_env d (candidates mutual_env 10 d) = []" for d
    by (simp add: scored_corpus_def candidates_def mutual_env_def map_filter_simps)
  have ud: "scored_uploaded mutual_env doc_d (siblings doc_d [doc_d, doc_s]) =
      [(doc_s, \<lparr>similarity = 3 / 4, intervals = [(0, 1)]\<rparr>)]"
    by (simp add: scored_uploaded_def siblings_def mutual_env_def doc_d_def doc_s_def
        map_filter_simps)
  have us: "scored_uploaded mutual_env doc_s (siblings doc_s [doc_d, doc_s]) =
      [(doc_d, \<lparr>similarity = 7 / 8, intervals = [(2, 3)]\<rparr>)]"
    by (simp add: scored_uploaded_def siblings_def mutual_env_def doc_d_def doc_s_def
        map_filter_simps)
  note t = sibling_pair_scored_in_both_directions
      [OF scenario_distinct mutual_searchable md ms ne mutual_ab g1 mutual_ba g2,
       where places = 2 and w = scenario_world]
  have r: "filter (\<lambda>r. document r = 1 \<and> match_id r = DocumentId 2)
       (result_table (snd (compare_documents mutual_env [doc_d, doc_s] (1 / 2) 10 2 scenario_world))) =
     [uploaded_result 100 doc_d doc_s \<lparr>similarity = 3 / 4, intervals = [(0, 1)]\<rparr>]
   \<and> filter (\<lambda>r. document r = 2 \<and> match_id r = DocumentId 1)
       (result_table (snd (compare_documents mutual_env [doc_d, doc_s] (1 / 2) 10 2 scenario_world))) =
     [uploaded_result 100 doc_s doc_d \<lparr>similarity = 7 / 8, intervals = [(2, 3)]\<rparr>]
   \<and> stored_total
       (snd (compare_documents mutual_env [doc_d, doc_s] (1 / 2) 10 2 scenario_world)) 1 =
     Some (ceil_round 100 (aggregate (1 / 2) [3 / 4]))
   \<and> stored_total
       (snd (compare_documents mutual_env [doc_d, doc_s] (1 / 2) 10 2 scenario_world)) 2 =
     Some (ceil_round 100 (aggregate (1 / 2) [7 / 8]))"
    using t unfolding Let_def e p i c ud us list.size drop_0
    by (simp only: list.map append_Nil snd_conv Comparison.simps simp_thms)
  have r': "uploaded_result 100 doc_d doc_s \<lparr>similarity = 3 / 4, intervals = [(0, 1)]\<rparr> =
      \<lparr>document = 1, match_type = UPLOADED, match_id = DocumentId 2, match_name = ''s'',
       percentage = 3 / 4, ranges = [(0, 1)]\<rparr>"
    "uploaded_result 100 doc_s doc_d \<lparr>similarity = 7 / 8, intervals = [(2, 3)]\<rparr> =
      \<lparr>document = 2, match_type = UPLOADED, match_id = DocumentId 1, match_name = ''d'',
       percentage = float64 (88 / 100), ranges = [(2, 3)]\<rparr>"
    by (simp_all add: uploaded_result_def i mutual_percentage_ab mutual_percentage_ba
        doc_d_def doc_s_def)
  from r have "filter (\<lambda>r. document r = 1 \<and> match_id r = DocumentId 2)
       (result_table (snd (compare_documents mutual_env [doc_d, doc_s] (1 / 2) 10 2 scenario_world))) =
     [\<lparr>document = 1, match_type = UPLOADED, match_id = DocumentId 2, match_name = ''s'',
       percentage = 3 / 4, ranges = [(0, 1)]\<rparr>]
   \<and> filter (\<lambda>r. document r = 2 \<and> match_id r = DocumentId 1)
       (result_table (snd (compare_documents mutual_env [doc_d, doc_s] (1 / 2) 10 2 scenario_world))) =
     [\<lparr>document = 2, match_type = UPLOADED, match_id = DocumentId 1, match_name = ''d'',
       percentage = float64 (88 / 100), ranges = [(2, 3)]\<rparr>]
   \<and> stored_total
       (snd (compare_documents mutual_env [doc_d, doc_s] (1 / 2) 10 2 scenario_world)) 1 =
     Some (3 / 4)
   \<and> stored_total
       (snd (compare_documents mutual_env [doc_d, doc_s] (1 / 2) 10 2 scenario_world)) 2 =
     Some (float64 (88 / 100))"
    unfolding r' mutual_total_d mutual_total_s .
  with scenario_distinct mutual_searchable ne mutual_ab mutual_ba show ?thesis by simp
qed

text \<open>Claim C6 on the concrete store: there is no submission 7.\<close>

theorem unknown_submission_is_noop_witness:
  "list_all (\<lambda>s. sub_id s \<noteq> 7) (submission_table scenario_world)
   \<and> process_documents scenario_env 7 scenario_world = (None, scenario_world)"
proof -
  have h: "\<forall>s\<in>set (submission_table scenario_world). sub_id s \<noteq> 7"
    by (simp add: scenario_world_def)
  from unknown_submission_is_noop [OF h, of scenario_env] h show ?thesis
    by (simp add: list_all_iff)
qed


lemma scenario_get: "get_submission scenario_world 1 = Inr scenario_submission"
  by (simp add: get_submission_def scenario_world_def scenario_submission_def)

lemma scenario_table_distinct: "distinct (map doc_id (document_table scenario_world))"
  by (simp add: scenario_world_def doc_d_def doc_s_def)

lemma ingested_text_document:
  "ingested (scenario_env\<lparr>send_mail := f\<rparr>) doc_d = doc_d"
  "ingested (scenario_env\<lparr>send_mail := f\<rparr>) doc_s = doc_s"
  by (simp_all add: ingested_def ingest_try_def detect_language_def process_raw_text_def
      scenario_env_def doc_d_def doc_s_def)

lemma scenario_run_documents:
  "run_documents (scenario_env\<lparr>send_mail := f\<rparr>) scenario_world scenario_submission =
     [doc_d, doc_s]"
proof -
  have "submission_documents scenario_world scenario_submission = [doc_d, doc_s]"
    by (simp add: submission_documents_def scenario_world_def scenario_submission_def
        doc_d_def doc_s_def)
  then show ?thesis
    by (simp add: run_documents_def ingested_text_document)
qed

lemma scenario_run_searchable:
  "list_all (searchable (scenario_env\<lparr>send_mail := f\<rparr>) 10) [doc_d, doc_s]"
  by (simp add: searchable_def scenario_env_def)

lemma scenario_env_mail: "scenario_env\<lparr>send_mail := (\<lambda>m. Inr ())\<rparr> = scenario_env"
  by (simp add: scenario_env_def)

text \<open>
  Claim C4 as stated fails on a submission that has been processed before: the
  run finds status \<^verbatim>\<open>PROCESSED\<close>, saves \<^verbatim>\<open>PROCESSING\<close> and then \<^verbatim>\<open>PROCESSED\<close>, so
  within the run the status moves backwards.
\<close>

theorem status_transitions_counterexample:
  "get_submission reprocessed_world 1 = Inr \<lparr>sub_id = 1, status = PROCESSED, email = None\<rparr>
   \<and> journal (snd (process_documents scenario_env 1 reprocessed_world)) =
       [SubmissionSaved \<lparr>sub_id = 1, status = PROCESSING, email = None\<rparr>,
        SubmissionSaved \<lparr>sub_id = 1, status = PROCESSED, email = None\<rparr>]
   \<and> \<not> sorted (map status_rank [PROCESSED, PROCESSING, PROCESSED])"
  by (simp add: get_submission_def reprocessed_world_def process_documents_def save_submission_def
      upsert_def submission_documents_def compare_documents_def)

text \<open>Claim C4 on the concrete store, from status \<^verbatim>\<open>PENDING\<close>.\<close>

theorem status_transitions_in_order_witness:
  "get_submission scenario_world 1 = Inr scenario_submission
   \<and> distinct (map doc_id (document_table scenario_world))
   \<and> journal (snd (process_documents scenario_env 1 scenario_world)) =
       SubmissionSaved (scenario_submission\<lparr>status := PROCESSING\<rparr>) #
       work_events scenario_env [doc_d, doc_s] @
       [SubmissionSaved (scenario_submission\<lparr>status := PROCESSED\<rparr>),
        MailDispatched (completion_mail scenario_env scenario_submission ''u@x.sk'')]
   \<and> sorted (map status_rank
       (PENDING # saved_statuses (journal (snd (process_documents scenario_env 1 scenario_world)))))"
proof -
  have e: "journal scenario_world = []" by (simp add: scenario_world_def)
  have st: "status scenario_submission = PENDING" "email scenario_submission = Some ''u@x.sk''"
    by (simp_all add: scenario_submission_def)
  have rd: "run_documents scenario_env scenario_world scenario_submission = [doc_d, doc_s]"
    using scenario_run_documents [of "\<lambda>m. Inr ()"] by (simp only: scenario_env_mail)
  have rs: "list_all (searchable scenario_env 10) [doc_d, doc_s]"
    using scenario_run_searchable [of "\<lambda>m. Inr ()"] by (simp only: scenario_env_mail)
  have ne: "(PENDING \<noteq> PROCESSED) = True" by simp
  have rs': "list_all (searchable scenario_env 10) [doc_d, doc_s] = True" using rs by simp
  from status_transitions_in_order [OF scenario_get scenario_table_distinct, of scenario_env]
  have "journal (snd (process_documents scenario_env 1 scenario_world)) =
       SubmissionSaved (scenario_submission\<lparr>status := PROCESSING\<rparr>) #
       work_events scenario_env [doc_d, doc_s] @
       [SubmissionSaved (scenario_submission\<lparr>status := PROCESSED\<rparr>),
        MailDispatched (completion_mail scenario_env scenario_submission ''u@x.sk'')]
   \<and> list_all is_document_work (work_events scenario_env [doc_d, doc_s])
   \<and> sorted (map status_rank
       (PENDING # saved_statuses (journal (snd (process_documents scenario_env 1 scenario_world)))))"
    unfolding Let_def rd e mail_events_def st list.size drop_0 append_Nil rs' ne if_True
      option.case simp_thms .
  then have "journal (snd (process_documents scenario_env 1 scenario_world)) =
       SubmissionSaved (scenario_submission\<lparr>status := PROCESSING\<rparr>) #
       work_events scenario_env [doc_d, doc_s] @
       [SubmissionSaved (scenario_submission\<lparr>status := PROCESSED\<rparr>),
        MailDispatched (completion_mail scenario_env scenario_submission ''u@x.sk'')]
   \<and> sorted (map status_rank
       (PENDING # saved_statuses (journal (snd (process_documents scenario_env 1 scenario_world)))))"
    by blast
  with scenario_get scenario_table_distinct show ?thesis by blast
qed

text \<open>Claim C9 on the concrete store with the mail backend down: the exception
  leaves the task, the mail was dispatched last, and the stored status is
  \<^verbatim>\<open>PROCESSED\<close>.\<close>

theorem notification_after_processed_witness:
  "get_submission scenario_world 1 = Inr scenario_submission
   \<and> distinct (map doc_id (document_table scenario_world))
   \<and> list_all (searchable mail_failing_env 10)
       (run_documents mail_failing_env scenario_world scenario_submission)
   \<and> send_mail mail_failing_env (completion_mail mail_failing_env scenario_submission ''u@x.sk'') =
       Inl (Raised ''smtp down'')
   \<and> fst (process_documents mail_failing_env 1 scenario_world) = Some (Raised ''smtp down'')
   \<and> get_submission (snd (process_documents mail_failing_env 1 scenario_world)) 1 =
       Inr (scenario_submission\<lparr>status := PROCESSED\<rparr>)
   \<and> last (journal (snd (process_documents mail_failing_env 1 scenario_world))) =
       MailDispatched
         \<lparr>subject = ''Antiplag - Your check has finished!'',
          message_template =
            ''Check the results of your check at https://antiplag.sk/submission/%s/'',
          message_arg = 1,
          from_email = ''noreply@antiplag.sk'',
          recipient_list = [''u@x.sk'']\<rparr>"
proof -
  have e: "journal scenario_world = []" by (simp add: scenario_world_def)
  have st: "email scenario_submission = Some ''u@x.sk''"
    by (simp add: scenario_submission_def)
  have rd: "run_documents mail_failing_env scenario_world scenario_submission = [doc_d, doc_s]"
    unfolding mail_failing_env_def by (rule scenario_run_documents)
  have rs: "list_all (searchable mail_failing_env 10)
       (run_documents mail_failing_env scenario_world scenario_submission)"
    unfolding rd unfolding mail_failing_env_def by (rule scenario_run_searchable)
  have sm: "send_mail mail_failing_env m = Inl (Raised ''smtp down'')" for m
    by (simp add: mail_failing_env_def)
  have cm: "completion_mail mail_failing_env scenario_submission ''u@x.sk'' =
         \<lparr>subject = ''Antiplag - Your check has finished!'',
          message_template =
            ''Check the results of your check at https://antiplag.sk/submission/%s/'',
          message_arg = 1,
          from_email = ''noreply@antiplag.sk'',
          recipient_list = [''u@x.sk'']\<rparr>"
    by (simp add: completion_mail_def mail_failing_env_def scenario_env_def scenario_submission_def)
  from notification_after_processed [OF scenario_get scenario_table_distinct rs]
  have "fst (process_documents mail_failing_env 1 scenario_world) = Some (Raised ''smtp down'')
   \<and> get_submission (snd (process_documents mail_failing_env 1 scenario_world)) 1 =
       Inr (scenario_submission\<lparr>status := PROCESSED\<rparr>)
   \<and> last (journal (snd (process_documents mail_failing_env 1 scenario_world))) =
       MailDispatched (completion_mail mail_failing_env scenario_submission ''u@x.sk'')"
    unfolding Let_def e st list.size drop_0
    by (simp add: sm)
  with scenario_get scenario_table_distinct rs sm show ?thesis
    by (simp only: cm simp_thms)
qed

end
